theory Spec2Isabelle
  imports Complex_Main "HOL-Library.Char_ord" "HOL-Library.List_Lexorder"
begin

section \<open>Numbers and Python values\<close>

text \<open>
  Floating-point numbers are modelled in real arithmetic: a finite float is a real number,
  and the two infinities and NaN are kept as separate values, because the code tests for
  them (\<open>np.isnan\<close>, \<open>np.isfinite\<close>) and \<open>np.log\<close> produces them. Rounding error and
  overflow of float arithmetic are not modelled; the range of 64-bit integers is.
\<close>

datatype npfloat = Num real | Infty bool | NaN

datatype error =
  ValueError | TypeError | IndexError | KeyError | ZeroDivisionError | OverflowError
  | IllegalValueError | ConfigurationError

datatype pyval = PNone | PBool bool | PInt int | PFloat npfloat | PStr string

fun np_isnan :: "npfloat \<Rightarrow> bool" where
  "np_isnan NaN = True"
| "np_isnan _ = False"

fun np_isfinite :: "npfloat \<Rightarrow> bool" where
  "np_isfinite (Num _) = True"
| "np_isfinite _ = False"

fun np_neg :: "npfloat \<Rightarrow> npfloat" where
  "np_neg (Num a) = Num (- a)"
| "np_neg (Infty s) = Infty (\<not> s)"
| "np_neg NaN = NaN"

fun np_add :: "npfloat \<Rightarrow> npfloat \<Rightarrow> npfloat" where
  "np_add (Num a) (Num b) = Num (a + b)"
| "np_add (Num a) (Infty s) = Infty s"
| "np_add (Infty s) (Num b) = Infty s"
| "np_add (Infty s) (Infty t) = (if s = t then Infty s else NaN)"
| "np_add NaN _ = NaN"
| "np_add _ NaN = NaN"

definition np_sub :: "npfloat \<Rightarrow> npfloat \<Rightarrow> npfloat" where
  "np_sub a b = np_add a (np_neg b)"

fun np_mul :: "npfloat \<Rightarrow> npfloat \<Rightarrow> npfloat" where
  "np_mul (Num a) (Num b) = Num (a * b)"
| "np_mul (Num a) (Infty s) = (if a = 0 then NaN else Infty (s = (0 < a)))"
| "np_mul (Infty s) (Num b) = (if b = 0 then NaN else Infty (s = (0 < b)))"
| "np_mul (Infty s) (Infty t) = Infty (s = t)"
| "np_mul NaN _ = NaN"
| "np_mul _ NaN = NaN"

text \<open>
  Division of numpy scalars never raises: a zero divisor gives an infinity or NaN (with a
  warning). Division of two Python floats raises \<open>ZeroDivisionError\<close> instead.
\<close>

fun np_div :: "npfloat \<Rightarrow> npfloat \<Rightarrow> npfloat" where
  "np_div (Num a) (Num b) =
     (if b = 0 then (if a = 0 then NaN else Infty (0 < a)) else Num (a / b))"
| "np_div (Num a) (Infty s) = Num 0"
| "np_div (Infty s) (Num b) = Infty (s = (0 \<le> b))"
| "np_div (Infty s) (Infty t) = NaN"
| "np_div NaN _ = NaN"
| "np_div _ NaN = NaN"

definition py_div :: "npfloat \<Rightarrow> npfloat \<Rightarrow> error + npfloat" where
  "py_div a b = (if b = Num 0 then Inl ZeroDivisionError else Inr (np_div a b))"

fun np_exp :: "npfloat \<Rightarrow> npfloat" where
  "np_exp (Num a) = Num (exp a)"
| "np_exp (Infty s) = (if s then Infty True else Num 0)"
| "np_exp NaN = NaN"

fun np_log :: "npfloat \<Rightarrow> npfloat" where
  "np_log (Num a) = (if 0 < a then Num (ln a) else if a = 0 then Infty False else NaN)"
| "np_log (Infty s) = (if s then Infty True else NaN)"
| "np_log NaN = NaN"

text \<open>Comparisons with NaN are false; \<open>!=\<close> with NaN is true.\<close>

fun np_le :: "npfloat \<Rightarrow> npfloat \<Rightarrow> bool" where
  "np_le (Num a) (Num b) = (a \<le> b)"
| "np_le (Num a) (Infty s) = s"
| "np_le (Infty s) (Num b) = (\<not> s)"
| "np_le (Infty s) (Infty t) = (s \<longrightarrow> t)"
| "np_le NaN _ = False"
| "np_le _ NaN = False"

fun np_eq :: "npfloat \<Rightarrow> npfloat \<Rightarrow> bool" where
  "np_eq NaN _ = False"
| "np_eq _ NaN = False"
| "np_eq a b = (a = b)"

definition np_lt :: "npfloat \<Rightarrow> npfloat \<Rightarrow> bool" where
  "np_lt a b = (np_le a b \<and> \<not> np_eq a b)"

text \<open>\<open>np.round(x, 0)\<close> rounds to the nearest integer, halves to the even neighbour.\<close>

definition round_half_even :: "real \<Rightarrow> int" where
  "round_half_even x =
     (let f = \<lfloor>x\<rfloor>; d = x - of_int f
      in if d < 1 / 2 then f else if 1 / 2 < d then f + 1
         else if even f then f else f + 1)"

fun np_round :: "npfloat \<Rightarrow> npfloat" where
  "np_round (Num a) = Num (of_int (round_half_even a))"
| "np_round x = x"

text \<open>\<open>np.round(x, 10)\<close>: scale by \<open>10^10\<close>, round, scale back.\<close>

fun np_round10 :: "npfloat \<Rightarrow> npfloat" where
  "np_round10 (Num a) = Num (of_int (round_half_even (a * 10 ^ 10)) / 10 ^ 10)"
| "np_round10 x = x"

text \<open>\<open>int(x)\<close> of a float truncates towards zero and raises on NaN and infinities.\<close>

definition trunc :: "real \<Rightarrow> int" where
  "trunc x = (if 0 \<le> x then \<lfloor>x\<rfloor> else \<lceil>x\<rceil>)"

fun int_of_float :: "npfloat \<Rightarrow> error + int" where
  "int_of_float (Num a) = Inr (trunc a)"
| "int_of_float (Infty s) = Inl OverflowError"
| "int_of_float NaN = Inl ValueError"

text \<open>
  \<open>x.astype(int)\<close> of a numpy float is the C cast to a signed 64-bit integer and does not
  raise: it truncates towards zero, and on NaN, on the infinities and on every value whose
  truncation does not fit, it yields the smallest 64-bit integer on the usual platforms.
\<close>

definition fits_int64 :: "int \<Rightarrow> bool" where
  "fits_int64 i = (- (2 ^ 63) \<le> i \<and> i < 2 ^ 63)"

fun astype_int :: "npfloat \<Rightarrow> int" where
  "astype_int (Num a) = (if fits_int64 (trunc a) then trunc a else - (2 ^ 63))"
| "astype_int _ = - (2 ^ 63)"

text \<open>The numeric reading of a Python value: \<open>bool\<close> is a subclass of \<open>int\<close>.\<close>

fun num_of :: "pyval \<Rightarrow> npfloat option" where
  "num_of (PBool b) = Some (Num (if b then 1 else 0))"
| "num_of (PInt i) = Some (Num (of_int i))"
| "num_of (PFloat x) = Some x"
| "num_of _ = None"

text \<open>
  A numpy function applied to a Python value first makes an array element of it. A float
  and a \<open>bool\<close> always fit; an \<open>int\<close> fits a 64-bit element, signed or unsigned, when it
  lies in \<open>[-2^63, 2^64)\<close>. Any other \<open>int\<close> is kept as a Python object; on it, on a string
  and on \<open>None\<close>, \<open>np.log\<close>, \<open>np.isnan\<close> and \<open>np.round\<close> raise \<open>TypeError\<close>.
\<close>

fun numpy_scalar :: "pyval \<Rightarrow> bool" where
  "numpy_scalar (PInt i) = (- (2 ^ 63) \<le> i \<and> i < 2 ^ 64)"
| "numpy_scalar (PBool b) = True"
| "numpy_scalar (PFloat x) = True"
| "numpy_scalar _ = False"

definition np_operand :: "pyval \<Rightarrow> error + npfloat" where
  "np_operand v =
     (if numpy_scalar v
      then (case num_of v of Some x \<Rightarrow> Inr x | None \<Rightarrow> Inl TypeError)
      else Inl TypeError)"

text \<open>
  Python's \<open>==\<close>: numbers compare by value across \<open>bool\<close>, \<open>int\<close> and \<open>float\<close>, strings
  with strings, \<open>None\<close> with \<open>None\<close>; everything else is unequal.
\<close>

fun py_eq :: "pyval \<Rightarrow> pyval \<Rightarrow> bool" where
  "py_eq PNone PNone = True"
| "py_eq (PStr s) (PStr t) = (s = t)"
| "py_eq a b = (case (num_of a, num_of b) of (Some x, Some y) \<Rightarrow> np_eq x y | _ \<Rightarrow> False)"

fun isinstance_int :: "pyval \<Rightarrow> bool" where
  "isinstance_int (PInt _) = True"
| "isinstance_int (PBool _) = True"
| "isinstance_int _ = False"

fun isinstance_float :: "pyval \<Rightarrow> bool" where
  "isinstance_float (PFloat _) = True"
| "isinstance_float _ = False"

section \<open>Numeric domain helpers\<close>

definition is_legal_uniformfloat :: "pyval \<Rightarrow> real \<Rightarrow> real \<Rightarrow> bool" where
  "is_legal_uniformfloat value upper lower =
     (if \<not> (isinstance_float value \<or> isinstance_int value) then False
      else (case num_of value of
              Some x \<Rightarrow> np_le x (Num upper) \<and> np_le (Num (lower - 1 / 10 ^ 10)) x
            | None \<Rightarrow> False))"

definition is_legal_normalfloat :: "pyval \<Rightarrow> bool" where
  "is_legal_normalfloat value = (isinstance_float value \<or> isinstance_int value)"

definition is_legal_uniforminteger :: "pyval \<Rightarrow> real \<Rightarrow> real \<Rightarrow> bool" where
  "is_legal_uniforminteger value upper lower =
     (if \<not> isinstance_int value then False
      else (case num_of value of
              Some x \<Rightarrow> np_le x (Num upper) \<and> np_le (Num (lower - 1 / 10 ^ 10)) x
            | None \<Rightarrow> False))"

definition is_legal_normalinteger :: "pyval \<Rightarrow> bool" where
  "is_legal_normalinteger value = isinstance_int value"

text \<open>
  The methods \<open>FloatHyperparameter.is_legal\<close> and \<open>IntegerHyperparameter.is_legal\<close>, which
  the uniform classes inherit without overriding, have the body \<open>pass\<close>: they return
  \<open>None\<close> on every input.
\<close>

definition FloatHyperparameter_is_legal :: "pyval \<Rightarrow> pyval" where
  "FloatHyperparameter_is_legal value = PNone"

definition IntegerHyperparameter_is_legal :: "pyval \<Rightarrow> pyval" where
  "IntegerHyperparameter_is_legal value = PNone"


text \<open>
  \<open>check_default_uniformfloat\<close>: the default is the midpoint (the geometric one on a log
  scale) unless given, rounded to ten decimals, and must be legal. In
  \<open>check_default_uniforminteger\<close> the bounds and a given default are Python integers, which
  \<open>np.log\<close> and \<open>np.round\<close> take only when numpy can hold them.
\<close>

definition check_default_uniformfloat ::
  "real option \<Rightarrow> real \<Rightarrow> real \<Rightarrow> bool \<Rightarrow> error + npfloat" where
  "check_default_uniformfloat dflt upper lower log_scale =
     (let d = (case dflt of
                 None \<Rightarrow>
                   (if log_scale
                    then np_exp (np_div (np_add (np_log (Num lower)) (np_log (Num upper))) (Num 2))
                    else Num ((lower + upper) / 2))
               | Some d \<Rightarrow> Num d);
          d' = np_round10 d
      in if is_legal_uniformfloat (PFloat d') upper lower then Inr d' else Inl ValueError)"

definition check_default_normalfloat :: "pyval \<Rightarrow> real \<Rightarrow> error + pyval" where
  "check_default_normalfloat dflt mu =
     (if dflt = PNone then Inr (PFloat (Num mu))
      else if is_legal_normalfloat dflt then Inr dflt
      else Inl ValueError)"

definition check_default_uniforminteger ::
  "pyval \<Rightarrow> int \<Rightarrow> int \<Rightarrow> bool \<Rightarrow> error + int" where
  "check_default_uniforminteger dflt upper lower log_scale =
     (let d = (if dflt = PNone
               then (if log_scale
                     then (case np_operand (PInt lower) of
                             Inl e \<Rightarrow> Inl e
                           | Inr lo \<Rightarrow>
                               (case np_operand (PInt upper) of
                                  Inl e \<Rightarrow> Inl e
                                | Inr up \<Rightarrow>
                                    Inr (np_exp (np_div (np_add (np_log lo) (np_log up))
                                                   (Num 2)))))
                     else Inr (Num ((of_int lower + of_int upper) / 2)))
               else np_operand dflt)
      in case d of
           Inl e \<Rightarrow> Inl e
         | Inr x \<Rightarrow>
             (case int_of_float (np_round x) of
                Inl e \<Rightarrow> Inl e
              | Inr k \<Rightarrow>
                  if is_legal_uniforminteger (PInt k) (of_int upper) (of_int lower)
                  then Inr k else Inl ValueError))"

definition check_default_normalinteger :: "pyval \<Rightarrow> int \<Rightarrow> error + pyval" where
  "check_default_normalinteger dflt mu =
     (if dflt = PNone then Inr (PInt mu)
      else if is_legal_normalinteger dflt then Inr dflt
      else Inl ValueError)"

text \<open>
  \<open>int(s)\<close> of a string: optional sign, then decimal digits, single underscores allowed
  between digits, white space stripped on both sides. A \<open>string\<close> is a list of characters
  with the code points 0 to 255; among them Python's white space is the six ASCII blanks,
  the four separators \<open>0x1C\<close> to \<open>0x1F\<close>, the next-line character \<open>0x85\<close> and the no-break
  space \<open>0xA0\<close>, and the decimal digits are \<open>0\<close> to \<open>9\<close>.
\<close>

definition digit_val :: "char \<Rightarrow> nat option" where
  "digit_val c =
     (let n = (of_char c :: nat) in if 48 \<le> n \<and> n \<le> 57 then Some (n - 48) else None)"

fun parse_digits :: "string \<Rightarrow> nat \<Rightarrow> nat option" where
  "parse_digits [] acc = Some acc"
| "parse_digits [c] acc =
     (case digit_val c of None \<Rightarrow> None | Some v \<Rightarrow> Some (acc * 10 + v))"
| "parse_digits (c # d # ds) acc =
     (if c = CHR ''_''
      then (case digit_val d of None \<Rightarrow> None | Some v \<Rightarrow> parse_digits ds (acc * 10 + v))
      else (case digit_val c of None \<Rightarrow> None | Some v \<Rightarrow> parse_digits (d # ds) (acc * 10 + v)))"

definition is_blank :: "char \<Rightarrow> bool" where
  "is_blank c = ((of_char c :: nat) \<in> {9, 10, 11, 12, 13, 28, 29, 30, 31, 32, 133, 160})"

definition strip :: "string \<Rightarrow> string" where
  "strip s = rev (dropWhile is_blank (rev (dropWhile is_blank s)))"

definition parse_unsigned :: "string \<Rightarrow> nat option" where
  "parse_unsigned s =
     (case s of [] \<Rightarrow> None
      | c # cs \<Rightarrow> (case digit_val c of None \<Rightarrow> None | Some v \<Rightarrow> parse_digits cs v))"

definition int_of_str :: "string \<Rightarrow> error + int" where
  "int_of_str s =
     (let t = strip s;
          r = (case t of
                 [] \<Rightarrow> None
               | c # cs \<Rightarrow>
                   if c = CHR ''-'' then map_option (\<lambda>n. - int n) (parse_unsigned cs)
                   else if c = CHR ''+'' then map_option int (parse_unsigned cs)
                   else map_option int (parse_unsigned t))
      in case r of None \<Rightarrow> Inl ValueError | Some i \<Rightarrow> Inr i)"

fun py_int :: "pyval \<Rightarrow> error + int" where
  "py_int (PInt i) = Inr i"
| "py_int (PBool b) = Inr (if b then 1 else 0)"
| "py_int (PFloat x) = int_of_float x"
| "py_int (PStr s) = int_of_str s"
| "py_int PNone = Inl TypeError"

text \<open>
  \<open>check_int\<close>: \<open>int(parameter)\<close> is evaluated first; a non-\<open>int\<close> whose distance to its
  truncation exceeds \<open>1e-8\<close> is refused. Subtracting a string from an integer raises
  \<open>TypeError\<close>.
\<close>

definition check_int :: "pyval \<Rightarrow> error + int" where
  "check_int parameter =
     (case py_int parameter of
        Inl e \<Rightarrow> Inl e
      | Inr k \<Rightarrow>
          (case num_of parameter of
             None \<Rightarrow> Inl TypeError
           | Some x \<Rightarrow>
               if np_lt (Num (1 / 10 ^ 8)) (np_sub (Num (of_int k)) x)
                  \<or> np_lt (np_sub (Num (of_int k)) x) (Num (- (1 / 10 ^ 8)))
               then (case parameter of PInt _ \<Rightarrow> Inr k | _ \<Rightarrow> Inl ValueError)
               else Inr k))"

text \<open>
  The method \<open>IntegerHyperparameter.check_int\<close> has the body \<open>pass\<close> and returns \<open>None\<close>.
\<close>

definition IntegerHyperparameter_check_int :: "pyval \<Rightarrow> int option" where
  "IntegerHyperparameter_check_int parameter = None"

text \<open>Python list indexing (negative indices count from the end) and \<open>list.index\<close>.\<close>

definition py_getitem :: "'a list \<Rightarrow> int \<Rightarrow> error + 'a" where
  "py_getitem xs i =
     (if 0 \<le> i
      then (if i < int (length xs) then Inr (xs ! nat i) else Inl IndexError)
      else (if - i \<le> int (length xs) then Inr (xs ! nat (int (length xs) + i))
            else Inl IndexError))"

fun list_index :: "pyval list \<Rightarrow> pyval \<Rightarrow> error + nat" where
  "list_index [] v = Inl ValueError"
| "list_index (x # xs) v =
     (if py_eq x v then Inr 0
      else (case list_index xs v of Inl e \<Rightarrow> Inl e | Inr n \<Rightarrow> Inr (Suc n)))"

definition py_in :: "pyval \<Rightarrow> pyval list \<Rightarrow> bool" where
  "py_in v xs = list_ex (\<lambda>x. py_eq x v) xs"

section \<open>Constant\<close>

record Constant =
  const_name :: string
  const_value :: pyval
  const_default :: pyval

definition Constant_init :: "string \<Rightarrow> pyval \<Rightarrow> error + Constant" where
  "Constant_init name value =
     (case value of
        PInt _ \<Rightarrow> Inr \<lparr>const_name = name, const_value = value, const_default = value\<rparr>
      | PFloat _ \<Rightarrow> Inr \<lparr>const_name = name, const_value = value, const_default = value\<rparr>
      | PStr _ \<Rightarrow> Inr \<lparr>const_name = name, const_value = value, const_default = value\<rparr>
      | _ \<Rightarrow> Inl TypeError)"


definition Constant_transform :: "Constant \<Rightarrow> npfloat \<Rightarrow> error + pyval" where
  "Constant_transform hp vector =
     (if \<not> np_isfinite vector then Inr PNone else Inr (const_value hp))"

definition Constant_inverse_transform :: "Constant \<Rightarrow> pyval \<Rightarrow> error + npfloat" where
  "Constant_inverse_transform hp vector =
     (if \<not> py_eq vector (const_value hp) then Inr NaN else Inr (Num 0))"

definition Constant_get_neighbors :: "Constant \<Rightarrow> pyval \<Rightarrow> int \<Rightarrow> bool \<Rightarrow> pyval list" where
  "Constant_get_neighbors hp value number transform = []"

section \<open>UniformFloat and NormalFloat\<close>

text \<open>
  Bounds, \<open>mu\<close>, \<open>sigma\<close> and \<open>q\<close> are finite numbers, already converted by \<open>float(...)\<close>.
  The fields \<open>_lower\<close> and \<open>_upper\<close> are results of \<open>np.log\<close> on a log scale and may be
  NaN or infinite. Vector entries are numpy floats, so divisions inside \<open>_transform\<close> are
  numpy divisions; \<open>_inverse_transform\<close> divides Python floats unless \<open>np.log\<close> has turned
  the value into a numpy float.
\<close>

record UniformFloatHyperparameter =
  uf_name :: string
  uf_lower :: real
  uf_upper :: real
  uf_q :: "real option"
  uf_log :: bool
  uf_default :: npfloat
  uf__lower :: npfloat
  uf__upper :: npfloat

definition UniformFloatHyperparameter_init ::
  "string \<Rightarrow> real \<Rightarrow> real \<Rightarrow> real option \<Rightarrow> real option \<Rightarrow> bool
   \<Rightarrow> error + UniformFloatHyperparameter" where
  "UniformFloatHyperparameter_init name lower upper dflt q log_scale =
     (if lower \<ge> upper then Inl ValueError
      else if log_scale \<and> lower \<le> 0 then Inl ValueError
      else (case check_default_uniformfloat dflt upper lower log_scale of
              Inl e \<Rightarrow> Inl e
            | Inr d \<Rightarrow>
                Inr \<lparr>uf_name = name, uf_lower = lower, uf_upper = upper, uf_q = q,
                     uf_log = log_scale, uf_default = d,
                     uf__lower =
                       (if log_scale
                        then (case q of
                                Some qv \<Rightarrow> np_log (Num (lower - (qv / 2 - 1 / 10 ^ 4)))
                              | None \<Rightarrow> np_log (Num lower))
                        else (case q of
                                Some qv \<Rightarrow> Num (lower - (qv / 2 - 1 / 10 ^ 4))
                              | None \<Rightarrow> Num lower)),
                     uf__upper =
                       (if log_scale
                        then (case q of
                                Some qv \<Rightarrow> np_log (Num (upper + (qv / 2 - 1 / 10 ^ 4)))
                              | None \<Rightarrow> np_log (Num upper))
                        else (case q of
                                Some qv \<Rightarrow> Num (upper + (qv / 2 - 1 / 10 ^ 4))
                              | None \<Rightarrow> Num upper))\<rparr>))"

text \<open>\<open>int(np.round(vector / q, 0)) * q\<close>\<close>

definition quantize :: "npfloat \<Rightarrow> real \<Rightarrow> error + npfloat" where
  "quantize vector q =
     (case int_of_float (np_round (np_div vector (Num q))) of
        Inl e \<Rightarrow> Inl e
      | Inr k \<Rightarrow> Inr (Num (of_int k * q)))"

definition UniformFloat_transform ::
  "UniformFloatHyperparameter \<Rightarrow> npfloat \<Rightarrow> error + pyval" where
  "UniformFloat_transform hp vector =
     (if np_isnan vector then Inr PNone
      else
        (let v1 = np_mul vector (np_sub (uf__upper hp) (uf__lower hp));
             v2 = np_add v1 (uf__lower hp);
             v3 = (if uf_log hp then np_exp v2 else v2)
         in case uf_q hp of
              None \<Rightarrow> Inr (PFloat v3)
            | Some q \<Rightarrow>
                (case quantize v3 q of Inl e \<Rightarrow> Inl e | Inr v4 \<Rightarrow> Inr (PFloat v4))))"

text \<open>
  On a log scale the value goes through \<open>np.log\<close> first; otherwise it enters Python
  arithmetic, where a value that is not a number raises \<open>TypeError\<close>.
\<close>

definition UniformFloat_inverse_transform ::
  "UniformFloatHyperparameter \<Rightarrow> pyval \<Rightarrow> error + npfloat" where
  "UniformFloat_inverse_transform hp vector =
     (if vector = PNone then Inr NaN
      else if uf_log hp
      then (case np_operand vector of
              Inl e \<Rightarrow> Inl e
            | Inr x \<Rightarrow>
                Inr (np_div (np_sub (np_log x) (uf__lower hp))
                            (np_sub (uf__upper hp) (uf__lower hp))))
      else (case num_of vector of
              None \<Rightarrow> Inl TypeError
            | Some x \<Rightarrow>
                py_div (np_sub x (uf__lower hp))
                       (np_sub (uf__upper hp) (uf__lower hp))))"

record NormalFloatHyperparameter =
  nf_name :: string
  nf_mu :: real
  nf_sigma :: real
  nf_q :: "real option"
  nf_log :: bool
  nf_default :: pyval

definition NormalFloatHyperparameter_init ::
  "string \<Rightarrow> real \<Rightarrow> real \<Rightarrow> pyval \<Rightarrow> real option \<Rightarrow> bool
   \<Rightarrow> error + NormalFloatHyperparameter" where
  "NormalFloatHyperparameter_init name mu sigma dflt q log_scale =
     (case check_default_normalfloat dflt mu of
        Inl e \<Rightarrow> Inl e
      | Inr d \<Rightarrow>
          Inr \<lparr>nf_name = name, nf_mu = mu, nf_sigma = sigma, nf_q = q,
               nf_log = log_scale, nf_default = d\<rparr>)"


definition NormalFloat_transform ::
  "NormalFloatHyperparameter \<Rightarrow> npfloat \<Rightarrow> error + pyval" where
  "NormalFloat_transform hp vector =
     (if np_isnan vector then Inr PNone
      else
        (let v1 = (if nf_log hp then np_exp vector else vector)
         in case nf_q hp of
              None \<Rightarrow> Inr (PFloat v1)
            | Some q \<Rightarrow>
                (case quantize v1 q of Inl e \<Rightarrow> Inl e | Inr v2 \<Rightarrow> Inr (PFloat v2))))"

text \<open>
  On a log scale the value goes through \<open>np.log\<close>. Without \<open>log\<close> the Python method hands
  its argument back unchanged; the result is read as the 64-bit float that a vector entry
  is, which for a value that is not a number is reported as \<open>TypeError\<close> here. Handed
  directly to \<open>_transform\<close>, a Python \<open>int\<close> that numpy cannot hold would raise \<open>TypeError\<close>
  in \<open>np.isnan\<close> there.
\<close>

definition NormalFloat_inverse_transform ::
  "NormalFloatHyperparameter \<Rightarrow> pyval \<Rightarrow> error + npfloat" where
  "NormalFloat_inverse_transform hp vector =
     (if vector = PNone then Inr NaN
      else if nf_log hp
      then (case np_operand vector of Inl e \<Rightarrow> Inl e | Inr x \<Rightarrow> Inr (np_log x))
      else (case num_of vector of None \<Rightarrow> Inl TypeError | Some x \<Rightarrow> Inr x))"

section \<open>UniformInteger and NormalInteger\<close>

text \<open>
  \<open>lower\<close>, \<open>upper\<close> and \<open>mu\<close> are integers. In \<open>UniformIntegerHyperparameter.__init__\<close> the
  quantization is checked by the method \<open>self.check_int\<close>, whose body is \<open>pass\<close>, so the
  stored \<open>q\<close> is \<open>None\<close> whatever is passed; \<open>NormalIntegerHyperparameter.__init__\<close> calls the
  free function \<open>check_int\<close>.
\<close>

record UniformIntegerHyperparameter =
  ui_name :: string
  ui_lower :: int
  ui_upper :: int
  ui_q :: "int option"
  ui_log :: bool
  ui_default :: int
  ui_ufhp :: UniformFloatHyperparameter

definition UniformIntegerHyperparameter_init ::
  "string \<Rightarrow> int \<Rightarrow> int \<Rightarrow> pyval \<Rightarrow> pyval \<Rightarrow> bool
   \<Rightarrow> error + UniformIntegerHyperparameter" where
  "UniformIntegerHyperparameter_init name lower upper dflt q log_scale =
     (case check_int (PInt lower) of Inl e \<Rightarrow> Inl e | Inr lo \<Rightarrow>
      case check_int (PInt upper) of Inl e \<Rightarrow> Inl e | Inr up \<Rightarrow>
      case (if dflt \<noteq> PNone
            then (case check_int dflt of Inl e \<Rightarrow> Inl e | Inr k \<Rightarrow> Inr (PInt k))
            else Inr PNone) of Inl e \<Rightarrow> Inl e | Inr d \<Rightarrow>
      case (if q \<noteq> PNone
            then (case num_of q of
                    None \<Rightarrow> Inl TypeError
                  | Some x \<Rightarrow>
                      if np_lt x (Num 1) then Inr None
                      else Inr (IntegerHyperparameter_check_int q))
            else Inr None) of Inl e \<Rightarrow> Inl e | Inr qv \<Rightarrow>
      if lo \<ge> up then Inl ValueError
      else if log_scale \<and> lo \<le> 0 then Inl ValueError
      else
       (case check_default_uniforminteger d upper lower log_scale of Inl e \<Rightarrow> Inl e | Inr dv \<Rightarrow>
        case UniformFloatHyperparameter_init name
               (of_int lo - 49999 / 100000) (of_int up + 49999 / 100000)
               (Some (of_int dv)) (map_option of_int qv) log_scale of
          Inl e \<Rightarrow> Inl e
        | Inr uf \<Rightarrow>
            Inr \<lparr>ui_name = name, ui_lower = lo, ui_upper = up, ui_q = qv,
                 ui_log = log_scale, ui_default = dv, ui_ufhp = uf\<rparr>))"

definition UniformInteger_transform ::
  "UniformIntegerHyperparameter \<Rightarrow> npfloat \<Rightarrow> error + pyval" where
  "UniformInteger_transform hp vector =
     (if np_isnan vector then Inr PNone
      else (case UniformFloat_transform (ui_ufhp hp) vector of
              Inl e \<Rightarrow> Inl e
            | Inr w \<Rightarrow>
                (case num_of w of
                   None \<Rightarrow> Inl TypeError
                 | Some x \<Rightarrow>
                     (let x1 = (case ui_q hp of
                                  None \<Rightarrow> x
                                | Some q \<Rightarrow>
                                    Num (of_int (astype_int (np_round (np_div x (Num (of_int q))))
                                                 * q)))
                      in Inr (PInt (astype_int (np_round x1)))))))"

definition UniformInteger_inverse_transform ::
  "UniformIntegerHyperparameter \<Rightarrow> pyval \<Rightarrow> error + npfloat" where
  "UniformInteger_inverse_transform hp vector =
     UniformFloat_inverse_transform (ui_ufhp hp) vector"

record NormalIntegerHyperparameter =
  ni_name :: string
  ni_mu :: int
  ni_sigma :: real
  ni_q :: "int option"
  ni_log :: bool
  ni_default :: pyval
  ni_nfhp :: NormalFloatHyperparameter

definition NormalIntegerHyperparameter_init ::
  "string \<Rightarrow> int \<Rightarrow> real \<Rightarrow> pyval \<Rightarrow> pyval \<Rightarrow> bool
   \<Rightarrow> error + NormalIntegerHyperparameter" where
  "NormalIntegerHyperparameter_init name mu sigma dflt q log_scale =
     (case (if dflt \<noteq> PNone
            then (case check_int dflt of Inl e \<Rightarrow> Inl e | Inr k \<Rightarrow> Inr (PInt k))
            else Inr PNone) of Inl e \<Rightarrow> Inl e | Inr d \<Rightarrow>
      case (if q \<noteq> PNone
            then (case num_of q of
                    None \<Rightarrow> Inl TypeError
                  | Some x \<Rightarrow>
                      if np_lt x (Num 1) then Inr None
                      else (case check_int q of Inl e \<Rightarrow> Inl e | Inr k \<Rightarrow> Inr (Some k)))
            else Inr None) of Inl e \<Rightarrow> Inl e | Inr qv \<Rightarrow>
      case check_default_normalinteger d mu of Inl e \<Rightarrow> Inl e | Inr dv \<Rightarrow>
      case NormalFloatHyperparameter_init name (of_int mu) sigma dv
             (map_option of_int qv) log_scale of
        Inl e \<Rightarrow> Inl e
      | Inr nf \<Rightarrow>
          Inr \<lparr>ni_name = name, ni_mu = mu, ni_sigma = sigma, ni_q = qv,
               ni_log = log_scale, ni_default = dv, ni_nfhp = nf\<rparr>)"


definition NormalInteger_transform ::
  "NormalIntegerHyperparameter \<Rightarrow> npfloat \<Rightarrow> error + pyval" where
  "NormalInteger_transform hp vector =
     (if np_isnan vector then Inr PNone
      else (case NormalFloat_transform (ni_nfhp hp) vector of
              Inl e \<Rightarrow> Inl e
            | Inr w \<Rightarrow>
                (case num_of w of
                   None \<Rightarrow> Inl TypeError
                 | Some x \<Rightarrow> Inr (PInt (astype_int (np_round x))))))"

definition NormalInteger_inverse_transform ::
  "NormalIntegerHyperparameter \<Rightarrow> pyval \<Rightarrow> error + npfloat" where
  "NormalInteger_inverse_transform hp vector =
     NormalFloat_inverse_transform (ni_nfhp hp) vector"

section \<open>Categorical\<close>

record CategoricalHyperparameter =
  cat_name :: string
  cat_choices :: "pyval list"
  cat__num_choices :: nat
  cat_default :: pyval

definition Categorical_is_legal :: "pyval list \<Rightarrow> pyval \<Rightarrow> bool" where
  "Categorical_is_legal choices value = (if py_in value choices then True else False)"

definition Categorical_check_default :: "pyval list \<Rightarrow> pyval \<Rightarrow> error + pyval" where
  "Categorical_check_default choices dflt =
     (if dflt = PNone then py_getitem choices 0
      else if Categorical_is_legal choices dflt then Inr dflt
      else Inl ValueError)"

definition CategoricalHyperparameter_init ::
  "string \<Rightarrow> pyval list \<Rightarrow> pyval \<Rightarrow> error + CategoricalHyperparameter" where
  "CategoricalHyperparameter_init name choices dflt =
     (case Categorical_check_default choices dflt of
        Inl e \<Rightarrow> Inl e
      | Inr d \<Rightarrow>
          Inr \<lparr>cat_name = name, cat_choices = choices,
               cat__num_choices = length choices, cat_default = d\<rparr>)"

definition Categorical_transform ::
  "CategoricalHyperparameter \<Rightarrow> npfloat \<Rightarrow> error + pyval" where
  "Categorical_transform hp vector =
     (case vector of
        Num a \<Rightarrow>
          if a - of_int \<lfloor>a\<rfloor> = 0 then py_getitem (cat_choices hp) (trunc a)
          else Inl ValueError
      | _ \<Rightarrow> Inr PNone)"

definition Categorical_inverse_transform ::
  "CategoricalHyperparameter \<Rightarrow> pyval \<Rightarrow> error + npfloat" where
  "Categorical_inverse_transform hp vector =
     (if vector = PNone then Inr NaN
      else (case list_index (cat_choices hp) vector of
              Inl e \<Rightarrow> Inl e
            | Inr n \<Rightarrow> Inr (Num (of_nat n))))"

definition Categorical_get_num_neighbors :: "CategoricalHyperparameter \<Rightarrow> int" where
  "Categorical_get_num_neighbors hp = int (length (cat_choices hp)) - 1"

section \<open>Ordinal\<close>

text \<open>
  \<open>value_dict\<close> is an ordered dictionary from the elements to their 1-based position.
  It is kept as an association list in insertion order; storing under a key that is
  already present (Python equality) replaces the stored position and keeps the key's place.
\<close>

fun dict_set :: "(pyval \<times> 'v) list \<Rightarrow> pyval \<Rightarrow> 'v \<Rightarrow> (pyval \<times> 'v) list" where
  "dict_set [] k v = [(k, v)]"
| "dict_set ((k', v') # d) k v =
     (if py_eq k' k then (k', v) # d else (k', v') # dict_set d k v)"

fun dict_get :: "(pyval \<times> 'v) list \<Rightarrow> pyval \<Rightarrow> error + 'v" where
  "dict_get [] k = Inl KeyError"
| "dict_get ((k', v') # d) k = (if py_eq k' k then Inr v' else dict_get d k)"

fun build_value_dict ::
  "pyval list \<Rightarrow> int \<Rightarrow> (pyval \<times> int) list \<Rightarrow> (pyval \<times> int) list" where
  "build_value_dict [] counter d = d"
| "build_value_dict (element # es) counter d =
     build_value_dict es (counter + 1) (dict_set d element counter)"

record OrdinalHyperparameter =
  ord_name :: string
  ord_sequence :: "pyval list"
  ord__num_elements :: nat
  ord_default :: pyval
  ord_value_dict :: "(pyval \<times> int) list"

definition Ordinal_is_legal :: "pyval list \<Rightarrow> pyval \<Rightarrow> bool" where
  "Ordinal_is_legal seq value = py_in value seq"

definition Ordinal_check_default :: "pyval list \<Rightarrow> pyval \<Rightarrow> error + pyval" where
  "Ordinal_check_default seq dflt =
     (if dflt = PNone then py_getitem seq 0
      else if Ordinal_is_legal seq dflt then Inr dflt
      else Inl ValueError)"

definition OrdinalHyperparameter_init ::
  "string \<Rightarrow> pyval list \<Rightarrow> pyval \<Rightarrow> error + OrdinalHyperparameter" where
  "OrdinalHyperparameter_init name seq dflt =
     (case Ordinal_check_default seq dflt of
        Inl e \<Rightarrow> Inl e
      | Inr d \<Rightarrow>
          Inr \<lparr>ord_name = name, ord_sequence = seq, ord__num_elements = length seq,
               ord_default = d, ord_value_dict = build_value_dict seq 1 []\<rparr>)"

definition Ordinal_transform ::
  "OrdinalHyperparameter \<Rightarrow> npfloat \<Rightarrow> error + pyval" where
  "Ordinal_transform hp vector =
     (case vector of
        NaN \<Rightarrow> Inr PNone
      | Num a \<Rightarrow>
          if a - of_int \<lfloor>a\<rfloor> = 0 then py_getitem (ord_sequence hp) (trunc a)
          else Inl ValueError
      | Infty s \<Rightarrow> Inl ValueError)"

definition Ordinal_inverse_transform ::
  "OrdinalHyperparameter \<Rightarrow> pyval \<Rightarrow> error + npfloat" where
  "Ordinal_inverse_transform hp vector =
     (if vector = PNone then Inr NaN
      else (case list_index (ord_sequence hp) vector of
              Inl e \<Rightarrow> Inl e
            | Inr n \<Rightarrow> Inr (Num (of_nat n))))"

definition get_seq_order :: "OrdinalHyperparameter \<Rightarrow> int list" where
  "get_seq_order hp = [1 ..  int (ord__num_elements hp)]"

definition get_order :: "OrdinalHyperparameter \<Rightarrow> pyval \<Rightarrow> error + int" where
  "get_order hp value = dict_get (ord_value_dict hp) value"

fun index_of_int :: "int list \<Rightarrow> int \<Rightarrow> error + nat" where
  "index_of_int [] i = Inl ValueError"
| "index_of_int (x # xs) i =
     (if x = i then Inr 0
      else (case index_of_int xs i of Inl e \<Rightarrow> Inl e | Inr n \<Rightarrow> Inr (Suc n)))"

definition get_value :: "OrdinalHyperparameter \<Rightarrow> int \<Rightarrow> error + pyval" where
  "get_value hp idx =
     (case index_of_int (map snd (ord_value_dict hp)) idx of
        Inl e \<Rightarrow> Inl e
      | Inr n \<Rightarrow> py_getitem (map fst (ord_value_dict hp)) (int n))"

definition check_order :: "OrdinalHyperparameter \<Rightarrow> pyval \<Rightarrow> pyval \<Rightarrow> error + bool" where
  "check_order hp val1 val2 =
     (case get_order hp val1 of Inl e \<Rightarrow> Inl e | Inr idx1 \<Rightarrow>
      case get_order hp val2 of Inl e \<Rightarrow> Inl e | Inr idx2 \<Rightarrow>
      Inr (if idx1 < idx2 then True else False))"

definition Ordinal_get_num_neighbors :: "OrdinalHyperparameter \<Rightarrow> pyval \<Rightarrow> error + int" where
  "Ordinal_get_num_neighbors hp value =
     (case py_getitem (ord_sequence hp) 0 of Inl e \<Rightarrow> Inl e | Inr first \<Rightarrow>
      if py_eq value first then Inr 1
      else (case py_getitem (ord_sequence hp) (- 1) of Inl e \<Rightarrow> Inl e | Inr lst \<Rightarrow>
            if py_eq value lst then Inr 1 else Inr 2))"

text \<open>
  \<open>OrdinalHyperparameter.get_neighbors\<close>; the random source \<open>rs\<close> is never used. The
  two \<open>if\<close> statements of each branch run one after the other on the growing list.
\<close>

definition Ordinal_get_neighbors ::
  "OrdinalHyperparameter \<Rightarrow> pyval \<Rightarrow> int \<Rightarrow> bool \<Rightarrow> error + pyval list" where
  "Ordinal_get_neighbors hp value number transform =
     (if number < int (length (ord_sequence hp)) then
        (case get_order hp value of Inl e \<Rightarrow> Inl e | Inr index \<Rightarrow>
         let neighbor_idx1 = index - 1;
             neighbor_idx2 = index + 1;
             seq = get_seq_order hp
         in case py_getitem seq 0 of Inl e \<Rightarrow> Inl e | Inr seq0 \<Rightarrow>
            if transform then
              (case (if neighbor_idx1 \<ge> seq0
                     then (case get_value hp neighbor_idx1 of Inl e \<Rightarrow> Inl e | Inr candidate1 \<Rightarrow>
                           case check_order hp candidate1 value of Inl e \<Rightarrow> Inl e | Inr b \<Rightarrow>
                           Inr (if b then [candidate1] else []))
                     else Inr []) of Inl e \<Rightarrow> Inl e | Inr neighbors1 \<Rightarrow>
               if neighbor_idx2 \<le> int (ord__num_elements hp)
               then (case get_value hp neighbor_idx2 of Inl e \<Rightarrow> Inl e | Inr candidate2 \<Rightarrow>
                     case check_order hp value candidate2 of Inl e \<Rightarrow> Inl e | Inr b \<Rightarrow>
                     Inr (if b then neighbors1 @ [candidate2] else neighbors1))
               else Inr neighbors1)
            else
              (let neighbors1 =
                     (if neighbor_idx1 < index \<and> neighbor_idx1 \<ge> seq0
                      then [PInt neighbor_idx1] else [])
               in Inr (if neighbor_idx2 > index \<and> neighbor_idx2 \<le> int (ord__num_elements hp)
                       then neighbors1 @ [PInt neighbor_idx2] else neighbors1)))
      else Inr [])"

section \<open>The variants together\<close>

datatype hyperparameter =
  HP_Constant Constant
| HP_UniformFloat UniformFloatHyperparameter
| HP_NormalFloat NormalFloatHyperparameter
| HP_UniformInteger UniformIntegerHyperparameter
| HP_NormalInteger NormalIntegerHyperparameter
| HP_Categorical CategoricalHyperparameter
| HP_Ordinal OrdinalHyperparameter

text \<open>
  \<open>to_value\<close> is each variant's \<open>_transform\<close>, \<open>to_vector\<close> its \<open>_inverse_transform\<close>. A
  vector entry is a 64-bit float, the element type of the array that holds a
  configuration.
\<close>

fun to_value :: "hyperparameter \<Rightarrow> npfloat \<Rightarrow> error + pyval" where
  "to_value (HP_Constant hp) v = Constant_transform hp v"
| "to_value (HP_UniformFloat hp) v = UniformFloat_transform hp v"
| "to_value (HP_NormalFloat hp) v = NormalFloat_transform hp v"
| "to_value (HP_UniformInteger hp) v = UniformInteger_transform hp v"
| "to_value (HP_NormalInteger hp) v = NormalInteger_transform hp v"
| "to_value (HP_Categorical hp) v = Categorical_transform hp v"
| "to_value (HP_Ordinal hp) v = Ordinal_transform hp v"

fun to_vector :: "hyperparameter \<Rightarrow> pyval \<Rightarrow> error + npfloat" where
  "to_vector (HP_Constant hp) v = Constant_inverse_transform hp v"
| "to_vector (HP_UniformFloat hp) v = UniformFloat_inverse_transform hp v"
| "to_vector (HP_NormalFloat hp) v = NormalFloat_inverse_transform hp v"
| "to_vector (HP_UniformInteger hp) v = UniformInteger_inverse_transform hp v"
| "to_vector (HP_NormalInteger hp) v = NormalInteger_inverse_transform hp v"
| "to_vector (HP_Categorical hp) v = Categorical_inverse_transform hp v"
| "to_vector (HP_Ordinal hp) v = Ordinal_inverse_transform hp v"


text \<open>A constructor call of any of the seven classes.\<close>

datatype hp_args =
  Constant_args string pyval
| UniformFloat_args string real real "real option" "real option" bool
| NormalFloat_args string real real pyval "real option" bool
| UniformInteger_args string int int pyval pyval bool
| NormalInteger_args string int real pyval pyval bool
| Categorical_args string "pyval list" pyval
| Ordinal_args string "pyval list" pyval

fun construct :: "hp_args \<Rightarrow> error + hyperparameter" where
  "construct (Constant_args name value) = map_sum id HP_Constant (Constant_init name value)"
| "construct (UniformFloat_args name lower upper dflt q lg) =
     map_sum id HP_UniformFloat (UniformFloatHyperparameter_init name lower upper dflt q lg)"
| "construct (NormalFloat_args name mu sigma dflt q lg) =
     map_sum id HP_NormalFloat (NormalFloatHyperparameter_init name mu sigma dflt q lg)"
| "construct (UniformInteger_args name lower upper dflt q lg) =
     map_sum id HP_UniformInteger (UniformIntegerHyperparameter_init name lower upper dflt q lg)"
| "construct (NormalInteger_args name mu sigma dflt q lg) =
     map_sum id HP_NormalInteger (NormalIntegerHyperparameter_init name mu sigma dflt q lg)"
| "construct (Categorical_args name choices dflt) =
     map_sum id HP_Categorical (CategoricalHyperparameter_init name choices dflt)"
| "construct (Ordinal_args name seq dflt) =
     map_sum id HP_Ordinal (OrdinalHyperparameter_init name seq dflt)"







definition usable_bounds :: "UniformFloatHyperparameter \<Rightarrow> bool" where
  "usable_bounds hp =
     (case (uf__lower hp, uf__upper hp) of (Num lo, Num up) \<Rightarrow> lo \<noteq> up | _ \<Rightarrow> False)"

definition positive_step :: "real option \<Rightarrow> bool" where
  "positive_step q = (case q of None \<Rightarrow> True | Some s \<Rightarrow> 0 < s)"

fun well_scaled :: "hyperparameter \<Rightarrow> bool" where
  "well_scaled (HP_UniformFloat hp) = (usable_bounds hp \<and> positive_step (uf_q hp))"
| "well_scaled (HP_NormalFloat hp) = positive_step (nf_q hp)"
| "well_scaled (HP_UniformInteger hp) = usable_bounds (ui_ufhp hp)"
| "well_scaled (HP_NormalInteger hp) = positive_step (map_option of_int (ni_q hp))"
| "well_scaled _ = True"

section \<open>Random sources, sampling and neighbours\<close>

text \<open>
  A random source \<open>rs\<close> is the sequence of values its successive calls return, read at a
  position that every call advances. Within one call of the functions below the arguments
  of \<open>rs.normal\<close>, \<open>rs.uniform\<close> and \<open>rs.randint\<close> never change, so one sequence stands for
  the source. Only the scalar case \<open>size=None\<close> is modelled.
\<close>

definition UniformFloat_sample ::
  "UniformFloatHyperparameter \<Rightarrow> (nat \<Rightarrow> npfloat) \<Rightarrow> nat \<Rightarrow> npfloat \<times> nat" where
  "UniformFloat_sample hp rs pos = (rs pos, Suc pos)"

definition UniformInteger_sample ::
  "UniformIntegerHyperparameter \<Rightarrow> (nat \<Rightarrow> npfloat) \<Rightarrow> nat \<Rightarrow> (error + npfloat) \<times> nat" where
  "UniformInteger_sample hp rs pos =
     (case UniformFloat_sample (ui_ufhp hp) rs pos of
        (v, pos') \<Rightarrow>
          (case UniformInteger_transform hp v of
             Inl e \<Rightarrow> (Inl e, pos')
           | Inr w \<Rightarrow> (UniformInteger_inverse_transform hp w, pos')))"









text \<open>
  \<open>CategoricalHyperparameter.get_neighbors\<close>. \<open>number\<close> is an integer or a float (the
  default is \<open>np.inf\<close>); \<open>value\<close> goes through \<open>int(value)\<close>; the random source returns
  integers.
\<close>

partial_function (option) Categorical_reject_loop ::
  "(nat \<Rightarrow> int) \<Rightarrow> int \<Rightarrow> nat \<Rightarrow> (int \<times> nat) option" where
  "Categorical_reject_loop rs index pos =
     (let neighbor_idx = rs pos
      in if neighbor_idx \<noteq> index then Some (neighbor_idx, Suc pos)
         else Categorical_reject_loop rs index (Suc pos))"

definition Categorical_candidate ::
  "CategoricalHyperparameter \<Rightarrow> bool \<Rightarrow> int \<Rightarrow> error + pyval" where
  "Categorical_candidate hp transform idx =
     (if transform then Categorical_transform hp (Num (of_int idx))
      else Inr (PFloat (Num (of_int idx))))"

partial_function (option) Categorical_neighbors_loop ::
  "(nat \<Rightarrow> int) \<Rightarrow> CategoricalHyperparameter \<Rightarrow> pyval \<Rightarrow> npfloat \<Rightarrow> bool
   \<Rightarrow> pyval list \<Rightarrow> nat \<Rightarrow> ((error + pyval list) \<times> nat) option" where
  "Categorical_neighbors_loop rs hp v number transform neighbors pos =
     (if np_lt (Num (of_nat (length neighbors))) number then
        (case py_int v of
           Inl e \<Rightarrow> Some (Inl e, pos)
         | Inr index \<Rightarrow>
             (case Categorical_reject_loop rs index pos of
                None \<Rightarrow> None
              | Some (neighbor_idx, pos') \<Rightarrow>
                  (case Categorical_candidate hp transform neighbor_idx of
                     Inl e \<Rightarrow> Some (Inl e, pos')
                   | Inr candidate \<Rightarrow>
                       if py_in candidate neighbors
                       then Categorical_neighbors_loop rs hp v number transform neighbors pos'
                       else Categorical_neighbors_loop rs hp v number transform
                              (neighbors @ [candidate]) pos')))
      else Some (Inr neighbors, pos))"

fun Categorical_enumerate ::
  "CategoricalHyperparameter \<Rightarrow> pyval \<Rightarrow> bool \<Rightarrow> int \<Rightarrow> pyval list \<Rightarrow> pyval list
   \<Rightarrow> error + pyval list" where
  "Categorical_enumerate hp v transform candidate_idx [] neighbors = Inr neighbors"
| "Categorical_enumerate hp v transform candidate_idx (candidate_value # rest) neighbors =
     (case py_int v of
        Inl e \<Rightarrow> Inl e
      | Inr index \<Rightarrow>
          if index = candidate_idx
          then Categorical_enumerate hp v transform (candidate_idx + 1) rest neighbors
          else (case Categorical_candidate hp transform candidate_idx of
                  Inl e \<Rightarrow> Inl e
                | Inr candidate \<Rightarrow>
                    Categorical_enumerate hp v transform (candidate_idx + 1) rest
                      (neighbors @ [candidate])))"

definition Categorical_get_neighbors ::
  "(nat \<Rightarrow> int) \<Rightarrow> CategoricalHyperparameter \<Rightarrow> pyval \<Rightarrow> npfloat \<Rightarrow> bool \<Rightarrow> nat
   \<Rightarrow> ((error + pyval list) \<times> nat) option" where
  "Categorical_get_neighbors rs hp v number transform pos =
     (if np_lt number (Num (of_nat (length (cat_choices hp))))
      then Categorical_neighbors_loop rs hp v number transform [] pos
      else Some (Categorical_enumerate hp v transform 0 (cat_choices hp) [], pos))"

text \<open>
  The list entry \<open>CategoricalHyperparameter.get_neighbors\<close> makes of the index \<open>j\<close> of a
  choice: the choice itself with \<open>transform\<close>, the index as a float without.
\<close>

definition neighbor_entry :: "CategoricalHyperparameter \<Rightarrow> bool \<Rightarrow> nat \<Rightarrow> pyval" where
  "neighbor_entry hp transform j =
     (if transform then cat_choices hp ! j else PFloat (Num (of_nat j)))"

section \<open>Configuration\<close>

text \<open>
  The owning configuration space and the checks of \<open>c_util\<close> are collaborators outside this
  code base; \<open>Configuration\<close> reaches them through the operations collected here. The
  hyperparameter operations are the ones \<open>Configuration\<close> calls (\<open>legal_value\<close>,
  \<open>to_vector\<close>, \<open>to_value\<close>, the \<open>isinstance(hp, FloatHyperparameter)\<close> test). The space's
  own equality is a further parameter of \<open>Configuration_eq\<close> below.
\<close>

record 'hp ConfigurationSpace =
  cs_keys :: "string list"
  cs_index_of :: "string \<Rightarrow> nat option"
  cs_lookup :: "string \<Rightarrow> 'hp option"
  hp_name :: "'hp \<Rightarrow> string"
  hp_legal_value :: "'hp \<Rightarrow> pyval \<Rightarrow> bool"
  hp_to_vector :: "'hp \<Rightarrow> pyval \<Rightarrow> error + npfloat"
  hp_to_value :: "'hp \<Rightarrow> npfloat \<Rightarrow> error + pyval"
  hp_is_float :: "'hp \<Rightarrow> bool"
  check_configuration :: "npfloat list \<Rightarrow> bool \<Rightarrow> error + unit"
  change_hp_value :: "npfloat list \<Rightarrow> string \<Rightarrow> npfloat \<Rightarrow> nat \<Rightarrow> error + npfloat list"

record 'hp Configuration =
  config_space :: "'hp ConfigurationSpace"
  allow_inactive_with_values :: bool
  origin :: pyval
  config_id :: "int option"
  c__values :: "(string \<times> pyval) list option"
  c__vector :: "npfloat list"

text \<open>A Python \<open>dict\<close> with string keys, in insertion order.\<close>

fun sdict_set :: "(string \<times> 'v) list \<Rightarrow> string \<Rightarrow> 'v \<Rightarrow> (string \<times> 'v) list" where
  "sdict_set [] k v = [(k, v)]"
| "sdict_set ((k', v') # d) k v =
     (if k' = k then (k', v) # d else (k', v') # sdict_set d k v)"

text \<open>
  \<open>__setitem__\<close>: the collaborator \<open>change_hp_value\<close> works on a copy of the stored array,
  so it is a function of the array's contents. The result pairs the outcome with the
  configuration as it is after the call.
\<close>

definition Configuration_setitem ::
  "'hp Configuration \<Rightarrow> string \<Rightarrow> pyval \<Rightarrow> (error + unit) \<times> 'hp Configuration" where
  "Configuration_setitem c key v =
     (let cs = config_space c in
      case cs_lookup cs key of
        None \<Rightarrow> (Inl KeyError, c)
      | Some param \<Rightarrow>
          if \<not> hp_legal_value cs param v then (Inl IllegalValueError, c)
          else
            (case cs_index_of cs key of
               None \<Rightarrow> (Inl KeyError, c)
             | Some idx \<Rightarrow>
                 (case hp_to_vector cs param v of
                    Inl e \<Rightarrow> (Inl e, c)
                  | Inr vector_value \<Rightarrow>
                      (case change_hp_value cs (c__vector c) (hp_name cs param) vector_value idx of
                         Inl e \<Rightarrow> (Inl e, c)
                       | Inr new_array \<Rightarrow>
                           (case check_configuration cs new_array False of
                              Inl e \<Rightarrow> (Inl e, c)
                            | Inr u \<Rightarrow>
                                (Inr (), c\<lparr>c__vector := new_array, c__values := None\<rparr>))))))"

text \<open>
  \<open>float(np.round(value, 16))\<close>. For a float, \<open>np.round\<close> scales by \<open>10^16\<close>, rounds and
  scales back. An integer that numpy can hold comes back unchanged and \<open>float\<close> converts
  it. On a \<open>bool\<close>, \<open>np.round\<close> to 16 decimals raises \<open>TypeError\<close>, as it does on every
  value that numpy cannot hold as a number.
\<close>

fun np_round16 :: "npfloat \<Rightarrow> npfloat" where
  "np_round16 (Num a) = Num (of_int (round_half_even (a * 10 ^ 16)) / 10 ^ 16)"
| "np_round16 x = x"

fun truncate_float :: "pyval \<Rightarrow> error + pyval" where
  "truncate_float (PFloat x) = Inr (PFloat (np_round16 x))"
| "truncate_float (PInt i) =
     (if numpy_scalar (PInt i) then Inr (PFloat (Num (of_int i))) else Inl TypeError)"
| "truncate_float _ = Inl TypeError"

text \<open>
  \<open>__init__\<close>. The vector argument is a one-dimensional sequence. On the path from a value
  mapping the array starts as \<open>np.empty\<close>, whose contents are arbitrary (\<open>uninit\<close>), and the
  loop over the hyperparameters of the space fills the cache and the slots.
  \<open>any(unknown_keys)\<close> tests the truth value of the unknown keys, so an unknown key that
  is the empty string passes.
\<close>

fun Configuration_fill ::
  "'hp ConfigurationSpace \<Rightarrow> (string \<times> pyval) list \<Rightarrow> string list
   \<Rightarrow> (string \<times> pyval) list \<Rightarrow> npfloat list
   \<Rightarrow> error + ((string \<times> pyval) list \<times> npfloat list)" where
  "Configuration_fill cs vals [] cache vec = Inr (cache, vec)"
| "Configuration_fill cs vals (key # ks) cache vec =
     (case cs_lookup cs key of
        None \<Rightarrow> Inl KeyError
      | Some hp \<Rightarrow>
          (case cs_index_of cs key of
             None \<Rightarrow> Inl KeyError
           | Some i \<Rightarrow>
               (case map_of vals key of
                  None \<Rightarrow>
                    if i < length vec then Configuration_fill cs vals ks cache (vec[i := NaN])
                    else Inl IndexError
                | Some v \<Rightarrow>
                    if \<not> hp_legal_value cs hp v then Inl IllegalValueError
                    else
                      (case (if hp_is_float cs hp then truncate_float v else Inr v) of
                         Inl e \<Rightarrow> Inl e
                       | Inr v' \<Rightarrow>
                           (case hp_to_vector cs hp v' of
                              Inl e \<Rightarrow> Inl e
                            | Inr x \<Rightarrow>
                                if i < length vec
                                then Configuration_fill cs vals ks (sdict_set cache key v')
                                       (vec[i := x])
                                else Inl IndexError)))))"

definition Configuration_init ::
  "'hp ConfigurationSpace \<Rightarrow> (string \<times> pyval) list option \<Rightarrow> npfloat list option \<Rightarrow> bool
   \<Rightarrow> pyval \<Rightarrow> int option \<Rightarrow> (nat \<Rightarrow> npfloat) \<Rightarrow> error + 'hp Configuration" where
  "Configuration_init cs vals_arg vector_arg allow orig cid uninit =
     (case (vals_arg, vector_arg) of
        (Some _, Some _) \<Rightarrow> Inl ValueError
      | (None, None) \<Rightarrow> Inl ValueError
      | (Some vals, None) \<Rightarrow>
          if list_ex (\<lambda>k. k \<noteq> [] \<and> k \<notin> set (cs_keys cs)) (map fst vals) then Inl ValueError
          else
            (case Configuration_fill cs vals (cs_keys cs) []
                    (map uninit [0 ..< length (cs_keys cs)]) of
               Inl e \<Rightarrow> Inl e
             | Inr (cache, vec) \<Rightarrow>
                 (case check_configuration cs vec allow of
                    Inl e \<Rightarrow> Inl e
                  | Inr u \<Rightarrow>
                      Inr \<lparr>config_space = cs, allow_inactive_with_values = allow,
                           origin = orig, config_id = cid,
                           c__values = Some cache, c__vector = vec\<rparr>))
      | (None, Some vec) \<Rightarrow>
          if length vec \<noteq> length (cs_keys cs) then Inl ValueError
          else Inr \<lparr>config_space = cs, allow_inactive_with_values = allow,
                    origin = orig, config_id = cid,
                    c__values = None, c__vector = vec\<rparr>)"

definition Configuration_getitem ::
  "'hp Configuration \<Rightarrow> string \<Rightarrow> (error + pyval) \<times> 'hp Configuration" where
  "Configuration_getitem c key =
     (case (case c__values c of None \<Rightarrow> None | Some d \<Rightarrow> map_of d key) of
        Some v \<Rightarrow> (Inr v, c)
      | None \<Rightarrow>
          (let cs = config_space c in
           case cs_lookup cs key of
             None \<Rightarrow> (Inl KeyError, c)
           | Some hyperparameter \<Rightarrow>
               (case cs_index_of cs key of
                  None \<Rightarrow> (Inl KeyError, c)
                | Some item_idx \<Rightarrow>
                    if length (c__vector c) \<le> item_idx then (Inl IndexError, c)
                    else if np_isnan (c__vector c ! item_idx) then (Inl KeyError, c)
                    else
                      (case hp_to_value cs hyperparameter (c__vector c ! item_idx) of
                         Inl e \<Rightarrow> (Inl e, c)
                       | Inr v \<Rightarrow>
                           (case (if hp_is_float cs hyperparameter then truncate_float v
                                  else Inr v) of
                              Inl e \<Rightarrow> (Inl e, c)
                            | Inr v' \<Rightarrow>
                                (Inr v',
                                 c\<lparr>c__values :=
                                     Some (sdict_set (case c__values c of None \<Rightarrow> [] | Some d \<Rightarrow> d)
                                             key v')\<rparr>))))))"

text \<open>
  \<open>dict(self)\<close>: \<open>__iter__\<close> yields the keys of the space whose slot is not NaN, and each
  yielded key is read through \<open>__getitem__\<close>, which fills the cache.
\<close>

fun Configuration_items ::
  "'hp Configuration \<Rightarrow> string list \<Rightarrow> (string \<times> pyval) list
   \<Rightarrow> (error + (string \<times> pyval) list) \<times> 'hp Configuration" where
  "Configuration_items c [] acc = (Inr acc, c)"
| "Configuration_items c (key # ks) acc =
     (case cs_index_of (config_space c) key of
        None \<Rightarrow> (Inl KeyError, c)
      | Some idx \<Rightarrow>
          if length (c__vector c) \<le> idx then (Inl IndexError, c)
          else if np_isnan (c__vector c ! idx) then Configuration_items c ks acc
          else (case Configuration_getitem c key of
                  (Inl e, c') \<Rightarrow> (Inl e, c')
                | (Inr v, c') \<Rightarrow> Configuration_items c' ks (sdict_set acc key v)))"

definition Configuration_dict ::
  "'hp Configuration \<Rightarrow> (error + (string \<times> pyval) list) \<times> 'hp Configuration" where
  "Configuration_dict c = Configuration_items c (cs_keys (config_space c)) []"

text \<open>
  Equality of two dictionaries: the same number of keys, and every key of the first is in
  the second with an equal value.
\<close>

definition dict_eq :: "(string \<times> pyval) list \<Rightarrow> (string \<times> pyval) list \<Rightarrow> bool" where
  "dict_eq a b =
     (length a = length b
      \<and> list_all (\<lambda>(k, v). case map_of b k of None \<Rightarrow> False | Some w \<Rightarrow> py_eq v w) a)"

text \<open>
  \<open>__eq__\<close> between two configurations; \<open>space_eq\<close> is the equality of the owning spaces,
  asked only when the dictionaries are equal.
\<close>

definition Configuration_eq ::
  "('hp ConfigurationSpace \<Rightarrow> 'hp ConfigurationSpace \<Rightarrow> bool)
   \<Rightarrow> 'hp Configuration \<Rightarrow> 'hp Configuration
   \<Rightarrow> (error + bool) \<times> 'hp Configuration \<times> 'hp Configuration" where
  "Configuration_eq space_eq c other =
     (case Configuration_dict c of
        (Inl e, c') \<Rightarrow> (Inl e, c', other)
      | (Inr d1, c') \<Rightarrow>
          (case Configuration_dict other of
             (Inl e, other') \<Rightarrow> (Inl e, c', other')
           | (Inr d2, other') \<Rightarrow>
               (Inr (dict_eq d1 d2 \<and> space_eq (config_space c) (config_space other)),
                c', other')))"

text \<open>
  \<open>repr\<close> of a value: decimal digits for integers, the keywords for \<open>None\<close> and the
  Booleans; the printed forms of floats and of strings are parameters.
\<close>

fun repr_nat :: "nat \<Rightarrow> string" where
  "repr_nat n =
     (if n < 10 then [''0123456789'' ! n]
      else repr_nat (n div 10) @ [''0123456789'' ! (n mod 10)])"

declare repr_nat.simps [simp del]

definition repr_int :: "int \<Rightarrow> string" where
  "repr_int i = (if i < 0 then CHR ''-'' # repr_nat (nat (- i)) else repr_nat (nat i))"

fun py_repr :: "(npfloat \<Rightarrow> string) \<Rightarrow> (string \<Rightarrow> string) \<Rightarrow> pyval \<Rightarrow> string" where
  "py_repr float_repr str_repr PNone = ''None''"
| "py_repr float_repr str_repr (PBool b) = (if b then ''True'' else ''False'')"
| "py_repr float_repr str_repr (PInt i) = repr_int i"
| "py_repr float_repr str_repr (PFloat x) = float_repr x"
| "py_repr float_repr str_repr (PStr s) = str_repr s"

definition repr_line :: "(pyval \<Rightarrow> string) \<Rightarrow> (string \<times> pyval) list \<Rightarrow> string \<Rightarrow> string" where
  "repr_line value_repr vals key =
     ''  '' @ [CHR 0x27] @ key @ [CHR 0x27] @ '': ''
     @ (case map_of vals key of None \<Rightarrow> [] | Some v \<Rightarrow> value_repr v) @ '',''"

fun join_lines :: "string list \<Rightarrow> string" where
  "join_lines [] = []"
| "join_lines [l] = l"
| "join_lines (l # ls) = l @ [CHR 0x0A] @ join_lines ls"

definition Configuration_repr ::
  "(pyval \<Rightarrow> string) \<Rightarrow> 'hp Configuration \<Rightarrow> (error + string) \<times> 'hp Configuration" where
  "Configuration_repr value_repr c =
     (case Configuration_dict c of
        (Inl e, c') \<Rightarrow> (Inl e, c')
      | (Inr vals, c') \<Rightarrow>
          (Inr (join_lines
                  ([''Configuration(values={'']
                   @ map (repr_line value_repr vals) (sort (map fst vals))
                   @ [''})''])),
           c'))"

text \<open>\<open>__hash__\<close> is the hash of the printed form; the string hash is a parameter.\<close>

definition Configuration_hash ::
  "(string \<Rightarrow> int) \<Rightarrow> (pyval \<Rightarrow> string) \<Rightarrow> 'hp Configuration
   \<Rightarrow> (error + int) \<times> 'hp Configuration" where
  "Configuration_hash py_hash value_repr c =
     (case Configuration_repr value_repr c of
        (Inl e, c') \<Rightarrow> (Inl e, c')
      | (Inr s, c') \<Rightarrow> (Inr (py_hash s), c'))"

section \<open>Worked instances\<close>

text \<open>The instance \<open>UniformIntegerHyperparameter("x", 0, 10)\<close>, as its constructor builds it.\<close>

definition ui_0_10 :: UniformIntegerHyperparameter where
  "ui_0_10 =
     \<lparr>ui_name = ''x'', ui_lower = 0, ui_upper = 10, ui_q = None, ui_log = False,
      ui_default = 5,
      ui_ufhp = \<lparr>uf_name = ''x'', uf_lower = - (49999 / 100000), uf_upper = 1049999 / 100000,
                 uf_q = None, uf_log = False, uf_default = Num 5,
                 uf__lower = Num (- (49999 / 100000)), uf__upper = Num (1049999 / 100000)\<rparr>\<rparr>"

text \<open>
  A space with one hyperparameter \<open>x\<close> whose legal values are \<open>1\<close> and \<open>2\<close> (Python
  equality), encoded as \<open>0\<close> and \<open>1\<close>, and with collaborators that accept every vector.
\<close>

definition demo_space :: "unit ConfigurationSpace" where
  "demo_space =
     \<lparr>cs_keys = [''x''], cs_index_of = [''x'' \<mapsto> 0], cs_lookup = [''x'' \<mapsto> ()],
      hp_name = (\<lambda>_. ''x''),
      hp_legal_value = (\<lambda>_ v. py_eq v (PInt 1) \<or> py_eq v (PInt 2)),
      hp_to_vector = (\<lambda>_ v. if py_eq v (PInt 1) then Inr (Num 0) else Inr (Num 1)),
      hp_to_value = (\<lambda>_ x. if x = Num 0 then Inr (PInt 1) else Inr (PInt 2)),
      hp_is_float = (\<lambda>_. False),
      check_configuration = (\<lambda>_ _. Inr ()),
      change_hp_value = (\<lambda>arr _ x idx. Inr (arr[idx := x]))\<rparr>"


text \<open>The instance \<open>CategoricalHyperparameter("c", ["a", "b", "c"])\<close>.\<close>

definition cat_abc :: CategoricalHyperparameter where
  "cat_abc = \<lparr>cat_name = ''c'', cat_choices = [PStr ''a'', PStr ''b'', PStr ''c''],
              cat__num_choices = 3, cat_default = PStr ''a''\<rparr>"

text \<open>
  The configuration built over \<open>demo_space\<close> from the value mapping \<open>{"x": v}\<close>, for a
  legal \<open>v\<close> that equals 1.
\<close>

definition cfg_demo :: "pyval \<Rightarrow> unit Configuration" where
  "cfg_demo v =
     \<lparr>config_space = demo_space, allow_inactive_with_values = False, origin = PNone,
      config_id = None, c__values = Some [(''x'', v)], c__vector = [Num 0]\<rparr>"




section \<open>Legality of bounded numeric values\<close>

text \<open>
  C2 (as stated, refuted). The claim gives the slack below \<open>lower\<close> as \<open>1e-8\<close>. The code
  subtracts \<open>0.0000000001 = 1e-10\<close>: the value \<open>-5e-9\<close> lies within \<open>1e-8\<close> below the lower
  bound \<open>0\<close> of a uniform float on \<open>[0, 1]\<close> and is rejected.
\<close>

theorem is_legal_slack_counterexample:
  "(0::real) - 1 / 10 ^ 8 \<le> - (5 / 10 ^ 9) \<and> - (5 / 10 ^ 9) \<le> (1::real)
   \<and> is_legal_uniformfloat (PFloat (Num (- (5 / 10 ^ 9)))) 1 0 = False"
  by (simp add: is_legal_uniformfloat_def)

text \<open>
  C2 (amended). \<open>is_legal_uniformfloat\<close> accepts a float or integer value exactly when
  \<open>lower - 1e-10 \<le> value \<le> upper\<close>; \<open>is_legal_uniforminteger\<close> accepts an integer value
  exactly under the same bounds and rejects every float. For the bounds \<open>0\<close> and \<open>1\<close>,
  \<open>-1e-10\<close> is legal and \<open>-1e-7\<close> is not.
\<close>

theorem is_legal_uniform_slack:
  "is_legal_uniformfloat (PFloat (Num x)) upper lower
     = (lower - 1 / 10 ^ 10 \<le> x \<and> x \<le> upper)
   \<and> is_legal_uniformfloat (PInt i) upper lower
     = (lower - 1 / 10 ^ 10 \<le> of_int i \<and> of_int i \<le> upper)
   \<and> is_legal_uniforminteger (PInt i) upper lower
     = (lower - 1 / 10 ^ 10 \<le> of_int i \<and> of_int i \<le> upper)
   \<and> is_legal_uniforminteger (PFloat y) upper lower = False
   \<and> is_legal_uniformfloat (PFloat (Num (- (1 / 10 ^ 10)))) 1 0 = True
   \<and> is_legal_uniformfloat (PFloat (Num (- (1 / 10 ^ 7)))) 1 0 = False"
  by (auto simp add: is_legal_uniformfloat_def is_legal_uniforminteger_def)

section \<open>Absent values\<close>

lemma map_sum_Inr_iff: "map_sum id f x = Inr y \<longleftrightarrow> (\<exists>r. x = Inr r \<and> y = f r)"
  by (cases x) auto

lemma Constant_init_value:
  "Constant_init name v = Inr hp \<Longrightarrow> const_value hp = v \<and> v \<noteq> PNone"
  by (auto simp: Constant_init_def split: pyval.splits)

text \<open>
  C6. For a hyperparameter of any of the seven classes, decoding the vector entry NaN gives
  \<open>None\<close>, and encoding \<open>None\<close> gives NaN.
\<close>

theorem absence_symmetry:
  "construct args = Inr hp \<Longrightarrow> to_value hp NaN = Inr PNone \<and> to_vector hp PNone = Inr NaN"
proof (cases args)
  case (Constant_args nm val)
  assume "construct args = Inr hp"
  with Constant_args obtain r where r: "Constant_init nm val = Inr r" "hp = HP_Constant r"
    by (auto simp: map_sum_Inr_iff)
  from Constant_init_value[OF r(1)] have "\<not> py_eq PNone (const_value r)"
    by (cases val) auto
  then show ?thesis using r
    by (simp add: Constant_transform_def Constant_inverse_transform_def)
qed (auto simp: map_sum_Inr_iff
     UniformFloat_transform_def UniformFloat_inverse_transform_def
     NormalFloat_transform_def NormalFloat_inverse_transform_def
     UniformInteger_transform_def UniformInteger_inverse_transform_def
     NormalInteger_transform_def NormalInteger_inverse_transform_def
     Categorical_transform_def Categorical_inverse_transform_def
     Ordinal_transform_def Ordinal_inverse_transform_def)

theorem absence_symmetry_witness:
  "construct (Constant_args ''c'' (PInt 3))
     = Inr (HP_Constant \<lparr>const_name = ''c'', const_value = PInt 3, const_default = PInt 3\<rparr>)
   \<and> to_value (HP_Constant \<lparr>const_name = ''c'', const_value = PInt 3, const_default = PInt 3\<rparr>)
        NaN = Inr PNone
   \<and> to_vector (HP_Constant \<lparr>const_name = ''c'', const_value = PInt 3, const_default = PInt 3\<rparr>)
        PNone = Inr NaN"
  using absence_symmetry [of "Constant_args ''c'' (PInt 3)"
      "HP_Constant \<lparr>const_name = ''c'', const_value = PInt 3, const_default = PInt 3\<rparr>"]
  by (simp add: Constant_init_def)

section \<open>Neighbours of an ordinal value\<close>

text \<open>
  C5 (the code at a failing input). For the sequence \<open>a, b, c\<close> and the middle element
  \<open>b\<close> (0-based position 1, vector encoding 1), \<open>get_neighbors\<close> without transform returns
  \<open>[1, 3]\<close>, the 1-based orders of \<open>a\<close> and \<open>c\<close>, whose vector encodings are \<open>0\<close> and \<open>2\<close>.
  Read as vector entries, \<open>1\<close> is \<open>b\<close> itself and \<open>3\<close> is out of range. The two ends \<open>a\<close> and
  \<open>c\<close> both get \<open>[2]\<close>, where the encoding of their only neighbour \<open>b\<close> is \<open>1\<close>.
\<close>

theorem ordinal_neighbors_one_based:
  "case OrdinalHyperparameter_init ''o'' [PStr ''a'', PStr ''b'', PStr ''c''] PNone of
     Inl e \<Rightarrow> False
   | Inr hp \<Rightarrow>
       Ordinal_get_neighbors hp (PStr ''b'') 2 False = Inr [PInt 1, PInt 3]
       \<and> Ordinal_get_neighbors hp (PStr ''a'') 2 False = Inr [PInt 2]
       \<and> Ordinal_get_neighbors hp (PStr ''c'') 2 False = Inr [PInt 2]
       \<and> Ordinal_inverse_transform hp (PStr ''b'') = Inr (Num 1)
       \<and> Ordinal_inverse_transform hp (PStr ''a'') = Inr (Num 0)
       \<and> Ordinal_inverse_transform hp (PStr ''c'') = Inr (Num 2)
       \<and> Ordinal_transform hp (Num 1) = Inr (PStr ''b'')
       \<and> Ordinal_transform hp (Num 3) = Inl IndexError"
  by (simp add: OrdinalHyperparameter_init_def Ordinal_check_default_def py_getitem_def
      Ordinal_get_neighbors_def get_order_def get_seq_order_def Ordinal_inverse_transform_def
      Ordinal_transform_def trunc_def upto.simps)

text \<open>
  C10. \<open>get_neighbors\<close> of an ordinal hyperparameter returns the empty list whenever the
  requested number is at least the length of the sequence. In particular a sequence of two
  elements has no neighbours at the default number 2, while \<open>get_num_neighbors\<close> reports 1
  for each of its two elements (elements that equal themselves, so not a NaN float).
\<close>

theorem ordinal_no_neighbors_when_number_large:
  "(int (length (ord_sequence hp)) \<le> number
      \<longrightarrow> Ordinal_get_neighbors hp v number transform = Inr [])
   \<and> (OrdinalHyperparameter_init name [a, b] dflt = Inr hp2 \<and> py_eq a a \<and> py_eq b b
      \<longrightarrow> Ordinal_get_neighbors hp2 v 2 transform = Inr []
          \<and> Ordinal_get_num_neighbors hp2 a = Inr 1
          \<and> Ordinal_get_num_neighbors hp2 b = Inr 1)"
  by (auto simp: Ordinal_get_neighbors_def OrdinalHyperparameter_init_def
      Ordinal_get_num_neighbors_def py_getitem_def split: sum.splits)

theorem ordinal_no_neighbors_when_number_large_witness:
  "int (length (ord_sequence
      \<lparr>ord_name = ''o'', ord_sequence = [PInt 1, PInt 2], ord__num_elements = 2,
       ord_default = PInt 1, ord_value_dict = [(PInt 1, 1), (PInt 2, 2)]\<rparr>)) \<le> 2
   \<and> OrdinalHyperparameter_init ''o'' [PInt 1, PInt 2] PNone
       = Inr \<lparr>ord_name = ''o'', ord_sequence = [PInt 1, PInt 2], ord__num_elements = 2,
              ord_default = PInt 1, ord_value_dict = [(PInt 1, 1), (PInt 2, 2)]\<rparr>
   \<and> py_eq (PInt 1) (PInt 1) \<and> py_eq (PInt 2) (PInt 2)
   \<and> Ordinal_get_neighbors
        \<lparr>ord_name = ''o'', ord_sequence = [PInt 1, PInt 2], ord__num_elements = 2,
         ord_default = PInt 1, ord_value_dict = [(PInt 1, 1), (PInt 2, 2)]\<rparr>
        (PInt 1) 2 False = Inr []
   \<and> Ordinal_get_num_neighbors
        \<lparr>ord_name = ''o'', ord_sequence = [PInt 1, PInt 2], ord__num_elements = 2,
         ord_default = PInt 1, ord_value_dict = [(PInt 1, 1), (PInt 2, 2)]\<rparr>
        (PInt 1) = Inr 1
   \<and> Ordinal_get_num_neighbors
        \<lparr>ord_name = ''o'', ord_sequence = [PInt 1, PInt 2], ord__num_elements = 2,
         ord_default = PInt 1, ord_value_dict = [(PInt 1, 1), (PInt 2, 2)]\<rparr>
        (PInt 2) = Inr 1"
  using ordinal_no_neighbors_when_number_large
    [of "\<lparr>ord_name = ''o'', ord_sequence = [PInt 1, PInt 2], ord__num_elements = 2,
          ord_default = PInt 1, ord_value_dict = [(PInt 1, 1), (PInt 2, 2)]\<rparr>"
        2 "PInt 1" False "''o''" "PInt 1" "PInt 2" PNone
        "\<lparr>ord_name = ''o'', ord_sequence = [PInt 1, PInt 2], ord__num_elements = 2,
          ord_default = PInt 1, ord_value_dict = [(PInt 1, 1), (PInt 2, 2)]\<rparr>"]
  by (simp add: OrdinalHyperparameter_init_def Ordinal_check_default_def py_getitem_def)

section \<open>Writing one key of a configuration\<close>

text \<open>
  C9. When \<open>__setitem__\<close> fails, for whatever reason (unknown key, illegal value, a failing
  encoder, a failing \<open>change_hp_value\<close>, a vector the validation rejects), the stored vector
  and the cached values, and every other field, are what they were before the call.
\<close>

theorem setitem_failure_keeps_state:
  "fst (Configuration_setitem c key v) = Inl e \<Longrightarrow> snd (Configuration_setitem c key v) = c"
  by (auto simp: Configuration_setitem_def Let_def split: option.splits sum.splits if_splits)

theorem setitem_failure_keeps_state_witness:
  "fst (Configuration_setitem
         \<lparr>config_space = demo_space, allow_inactive_with_values = False, origin = PNone,
          config_id = None, c__values = Some [(''x'', PInt 1)], c__vector = [Num 0]\<rparr>
         ''x'' (PInt 3)) = Inl IllegalValueError
   \<and> snd (Configuration_setitem
         \<lparr>config_space = demo_space, allow_inactive_with_values = False, origin = PNone,
          config_id = None, c__values = Some [(''x'', PInt 1)], c__vector = [Num 0]\<rparr>
         ''x'' (PInt 3))
     = \<lparr>config_space = demo_space, allow_inactive_with_values = False, origin = PNone,
          config_id = None, c__values = Some [(''x'', PInt 1)], c__vector = [Num 0]\<rparr>"
  using setitem_failure_keeps_state
    [of "\<lparr>config_space = demo_space, allow_inactive_with_values = False, origin = PNone,
          config_id = None, c__values = Some [(''x'', PInt 1)], c__vector = [Num 0]\<rparr>"
        "''x''" "PInt 3" IllegalValueError]
  by (simp add: Configuration_setitem_def demo_space_def)

section \<open>Sampling a uniform integer\<close>

lemma check_int_PInt: "check_int (PInt i) = Inr i"
  by (simp add: check_int_def np_lt_def np_sub_def)

lemma trunc_of_int [simp]: "trunc (of_int i) = i"
  by (simp add: trunc_def)

lemma trunc_of_nat [simp]: "trunc (of_nat j) = int j"
  by (simp add: trunc_def)

lemma trunc_numeral [simp]: "trunc (numeral k) = numeral k"
  using trunc_of_int[of "numeral k"] by simp

lemma UniformFloat_init_fields:
  assumes "UniformFloatHyperparameter_init name lower upper dflt q lg = Inr uf"
  shows "uf_lower uf = lower" "uf_upper uf = upper" "uf_q uf = q" "uf_log uf = lg"
    "lower < upper" "lg \<Longrightarrow> 0 < lower"
    "uf__lower uf = (let w = (case q of Some qv \<Rightarrow> lower - (qv / 2 - 1 / 10 ^ 4) | None \<Rightarrow> lower)
                     in if lg then np_log (Num w) else Num w)"
    "uf__upper uf = (let w = (case q of Some qv \<Rightarrow> upper + (qv / 2 - 1 / 10 ^ 4) | None \<Rightarrow> upper)
                     in if lg then np_log (Num w) else Num w)"
  using assms
  by (auto simp: UniformFloatHyperparameter_init_def split: if_splits sum.splits option.splits)

lemma UniformInteger_init_q:
  "(if q \<noteq> PNone
    then (case num_of q of
            None \<Rightarrow> Inl TypeError
          | Some x \<Rightarrow> if np_lt x (Num 1) then Inr None else Inr (IntegerHyperparameter_check_int q))
    else Inr None) = Inr qv \<Longrightarrow> qv = None"
  by (auto simp: IntegerHyperparameter_check_int_def split: if_splits option.splits)

lemma UniformInteger_init_fields:
  assumes "UniformIntegerHyperparameter_init name lower upper dflt q lg = Inr hp"
  shows "ui_lower hp = lower" "ui_upper hp = upper" "ui_q hp = None" "ui_log hp = lg"
    "lower < upper" "lg \<Longrightarrow> 0 < lower"
    "\<exists>d. UniformFloatHyperparameter_init name (of_int lower - 49999 / 100000)
           (of_int upper + 49999 / 100000) (Some d) None lg = Inr (ui_ufhp hp)"
proof -
  from assms obtain d qv dv uf where
    q: "(if q \<noteq> PNone
        then (case num_of q of
            None \<Rightarrow> Inl TypeError
          | Some x \<Rightarrow> if np_lt x (Num 1) then Inr None else Inr (IntegerHyperparameter_check_int q))
        else Inr None) = Inr qv"
    and b: "\<not> lower \<ge> upper" "\<not> (lg \<and> lower \<le> 0)"
    and uf: "UniformFloatHyperparameter_init name (of_int lower - 49999 / 100000)
           (of_int upper + 49999 / 100000) (Some (of_int dv)) (map_option of_int qv) lg = Inr uf"
    and hp: "hp = \<lparr>ui_name = name, ui_lower = lower, ui_upper = upper, ui_q = qv,
                 ui_log = lg, ui_default = dv, ui_ufhp = uf\<rparr>"
    unfolding UniformIntegerHyperparameter_init_def check_int_PInt
    by (simp split: sum.splits if_splits)
  from UniformInteger_init_q[OF q] have qv: "qv = None" .
  show "ui_lower hp = lower" "ui_upper hp = upper" "ui_q hp = None" "ui_log hp = lg"
    using hp qv by simp_all
  show "lower < upper" using b by simp
  show "0 < lower" if lg using b that by simp
  show "\<exists>d. UniformFloatHyperparameter_init name (of_int lower - 49999 / 100000)
           (of_int upper + 49999 / 100000) (Some d) None lg = Inr (ui_ufhp hp)"
    using uf hp qv by auto
qed

lemma round_half_even_of_int [simp]: "round_half_even (of_int k) = k"
  by (simp add: round_half_even_def)

lemma round_half_even_numeral [simp]: "round_half_even (numeral k) = numeral k"
  using round_half_even_of_int[of "numeral k"] by simp

lemma round_half_even_0 [simp]: "round_half_even 0 = 0"
  using round_half_even_of_int[of 0] by simp

lemma trunc_0 [simp]: "trunc 0 = 0"
  by (simp add: trunc_def)

lemma ui_0_10_init: "UniformIntegerHyperparameter_init ''x'' 0 10 PNone PNone False = Inr ui_0_10"
  by (simp add: UniformIntegerHyperparameter_init_def check_int_PInt
      check_default_uniforminteger_def trunc_def is_legal_uniforminteger_def
      UniformFloatHyperparameter_init_def check_default_uniformfloat_def
      is_legal_uniformfloat_def ui_0_10_def)

lemma ui_0_10_transform:
  "UniformInteger_transform ui_0_10 (Num (1 / 2)) = Inr (PInt 5)"
  "UniformInteger_transform ui_0_10 (Num (51 / 100)) = Inr (PInt 5)"
  by (simp_all add: UniformInteger_transform_def UniformFloat_transform_def ui_0_10_def
      np_sub_def round_half_even_def fits_int64_def)

lemma ui_0_10_inverse:
  "UniformInteger_inverse_transform ui_0_10 (PInt 5) = Inr (Num (1 / 2))"
  by (simp add: UniformInteger_inverse_transform_def UniformFloat_inverse_transform_def
        ui_0_10_def py_div_def np_sub_def)

lemma ui_0_10_bounds:
  "uf_lower (ui_ufhp ui_0_10) = - (49999 / 100000)"
  "uf_upper (ui_ufhp ui_0_10) = 1049999 / 100000"
  by (simp_all add: ui_0_10_def)

text \<open>
  C7. \<open>UniformIntegerHyperparameter._sample\<close> returns
  \<open>_inverse_transform(_transform(draw))\<close> for the raw draw of its float instance, so two
  draws in \<open>[0, 1]\<close> that decode to the same integer give the same sampled vector; the float
  instance has the bounds widened by \<open>0.49999\<close>.
\<close>

theorem sample_round_trip:
  "fst (UniformInteger_sample hp rs pos)
     = (case UniformInteger_transform hp (rs pos) of
          Inl e \<Rightarrow> Inl e
        | Inr w \<Rightarrow> UniformInteger_inverse_transform hp w)
   \<and> (np_le (Num 0) (rs pos) \<and> np_le (rs pos) (Num 1)
      \<and> np_le (Num 0) (rs' pos') \<and> np_le (rs' pos') (Num 1)
      \<and> UniformInteger_transform hp (rs pos) = UniformInteger_transform hp (rs' pos')
      \<longrightarrow> fst (UniformInteger_sample hp rs pos) = fst (UniformInteger_sample hp rs' pos'))
   \<and> (UniformIntegerHyperparameter_init name lower upper dflt q lg = Inr hp
      \<longrightarrow> uf_lower (ui_ufhp hp) = of_int lower - 49999 / 100000
          \<and> uf_upper (ui_ufhp hp) = of_int upper + 49999 / 100000)"
proof (intro conjI impI)
  show s: "fst (UniformInteger_sample hp rs pos)
     = (case UniformInteger_transform hp (rs pos) of
          Inl e \<Rightarrow> Inl e
        | Inr w \<Rightarrow> UniformInteger_inverse_transform hp w)" for rs pos
    by (simp add: UniformInteger_sample_def UniformFloat_sample_def split: sum.splits)
  show "fst (UniformInteger_sample hp rs pos) = fst (UniformInteger_sample hp rs' pos')"
    if "np_le (Num 0) (rs pos) \<and> np_le (rs pos) (Num 1)
      \<and> np_le (Num 0) (rs' pos') \<and> np_le (rs' pos') (Num 1)
      \<and> UniformInteger_transform hp (rs pos) = UniformInteger_transform hp (rs' pos')"
    using that by (simp add: s)
next
  assume a: "UniformIntegerHyperparameter_init name lower upper dflt q lg = Inr hp"
  from UniformInteger_init_fields(7)[OF a] obtain d where
    "UniformFloatHyperparameter_init name (of_int lower - 49999 / 100000)
           (of_int upper + 49999 / 100000) (Some d) None lg = Inr (ui_ufhp hp)" ..
  from UniformFloat_init_fields(1,2)[OF this]
  show "uf_lower (ui_ufhp hp) = of_int lower - 49999 / 100000"
    "uf_upper (ui_ufhp hp) = of_int upper + 49999 / 100000" by simp_all
qed


theorem sample_round_trip_witness:
  "np_le (Num 0) (Num (1 / 2)) \<and> np_le (Num (1 / 2)) (Num 1)
   \<and> np_le (Num 0) (Num (51 / 100)) \<and> np_le (Num (51 / 100)) (Num 1)
   \<and> UniformInteger_transform ui_0_10 (Num (1 / 2))
       = UniformInteger_transform ui_0_10 (Num (51 / 100))
   \<and> UniformIntegerHyperparameter_init ''x'' 0 10 PNone PNone False = Inr ui_0_10
   \<and> fst (UniformInteger_sample ui_0_10 (\<lambda>n. Num (1 / 2)) 0)
       = fst (UniformInteger_sample ui_0_10 (\<lambda>n. Num (51 / 100)) 0)
   \<and> fst (UniformInteger_sample ui_0_10 (\<lambda>n. Num (1 / 2)) 0) = Inr (Num (1 / 2))
   \<and> uf_lower (ui_ufhp ui_0_10) = of_int 0 - 49999 / 100000
   \<and> uf_upper (ui_ufhp ui_0_10) = of_int 10 + 49999 / 100000"
  using sample_round_trip [of ui_0_10 "\<lambda>n. Num (1 / 2)" 0 "\<lambda>n. Num (51 / 100)" 0
      "''x''" 0 10 PNone PNone False]
  by (auto simp: ui_0_10_init ui_0_10_transform ui_0_10_inverse ui_0_10_bounds)

section \<open>Rejection loops of the integer neighbours\<close>










section \<open>Neighbours of a categorical value\<close>

lemma cat_abc_init:
  "CategoricalHyperparameter_init ''c'' [PStr ''a'', PStr ''b'', PStr ''c''] PNone = Inr cat_abc"
  by (simp add: CategoricalHyperparameter_init_def Categorical_check_default_def py_getitem_def
      cat_abc_def)

lemma Categorical_candidate_in_range:
  "j < length (cat_choices hp) \<Longrightarrow>
   Categorical_candidate hp transform (int j) = Inr (neighbor_entry hp transform j)"
  by (simp add: Categorical_candidate_def Categorical_transform_def py_getitem_def
      neighbor_entry_def)

lemma Categorical_enumerate_from:
  assumes "py_int v = Inr i"
  shows "n + length rest = length (cat_choices hp) \<Longrightarrow>
     Categorical_enumerate hp v transform (int n) rest acc
       = Inr (acc @ map (neighbor_entry hp transform)
                      (filter (\<lambda>j. int j \<noteq> i) [n ..< length (cat_choices hp)]))"
proof (induction rest arbitrary: n acc)
  case Nil
  then show ?case by simp
next
  case (Cons c rest)
  then have n: "n < length (cat_choices hp)" "Suc n + length rest = length (cat_choices hp)"
    by simp_all
  have up: "[n ..< length (cat_choices hp)] = n # [Suc n ..< length (cat_choices hp)]"
    using n(1) by (simp add: upt_conv_Cons)
  have step: "int n + 1 = int (Suc n)" by simp
  show ?case
    by (simp only: Categorical_enumerate.simps assms sum.case step Cons.IH[OF n(2)]
          Categorical_candidate_in_range[OF n(1)] up)
       simp
qed

lemma enumerate_all:
  assumes "\<not> np_lt number (Num (of_nat (length (cat_choices hp))))" "py_int v = Inr i"
  shows "Categorical_get_neighbors rs hp v number transform pos
       = Some (Inr (map (neighbor_entry hp transform)
                      (filter (\<lambda>j. int j \<noteq> i) [0 ..< length (cat_choices hp)])), pos)"
  using Categorical_enumerate_from[OF assms(2), of 0 "cat_choices hp" hp transform "[]"] assms(1)
  by (simp add: Categorical_get_neighbors_def)

lemma cat_abc_string_value: "Categorical_get_neighbors rs cat_abc (PStr ''a'') (Num 5) True pos = Some (Inl ValueError, pos)"
  by (simp add: Categorical_get_neighbors_def cat_abc_def np_lt_def int_of_str_def strip_def
      is_blank_def parse_unsigned_def digit_val_def)

lemma cat_abc_draw_order: "Categorical_get_neighbors (\<lambda>n. if n = 0 then 2 else 1) cat_abc (PInt 0) (Num 2) False 0
   = Some (Inr [PFloat (Num 2), PFloat (Num 1)], 2)"
  unfolding Categorical_get_neighbors_def
  apply (simp add: cat_abc_def np_lt_def)
  apply (subst Categorical_neighbors_loop.simps)
  apply (subst Categorical_reject_loop.simps)
  apply (simp add: np_lt_def Categorical_candidate_def py_in_def)
  apply (subst Categorical_neighbors_loop.simps)
  apply (subst Categorical_reject_loop.simps)
  apply (simp add: np_lt_def Categorical_candidate_def py_in_def)
  apply (subst Categorical_neighbors_loop.simps)
  apply (simp add: np_lt_def)
  done


lemma np_lt_nat [simp]: "np_lt (Num (of_nat a)) (Num (of_nat b)) \<longleftrightarrow> a < b"
  by (auto simp: np_lt_def)

lemma Categorical_reject_loop_skip:
  "rs p = i \<Longrightarrow> Categorical_reject_loop rs i p = Categorical_reject_loop rs i (Suc p)"
  by (subst Categorical_reject_loop.simps) simp

lemma Categorical_reject_loop_hit:
  "rs p \<noteq> i \<Longrightarrow> Categorical_reject_loop rs i p = Some (rs p, Suc p)"
  by (subst Categorical_reject_loop.simps) simp

lemma neighbor_entry_eq:
  assumes "transform \<longrightarrow> (\<forall>j<length (cat_choices hp). \<forall>j'<length (cat_choices hp).
              py_eq (cat_choices hp ! j') (cat_choices hp ! j) \<longleftrightarrow> j' = j)"
    and "j < length (cat_choices hp)" "j' < length (cat_choices hp)"
  shows "py_eq (neighbor_entry hp transform j') (neighbor_entry hp transform j) \<longleftrightarrow> j' = j"
  using assms by (cases transform) (auto simp: neighbor_entry_def)

lemma neighbor_entry_in:
  assumes "transform \<longrightarrow> (\<forall>j<length (cat_choices hp). \<forall>j'<length (cat_choices hp).
              py_eq (cat_choices hp ! j') (cat_choices hp ! j) \<longleftrightarrow> j' = j)"
    and "j < length (cat_choices hp)" "set js \<subseteq> {0 ..< length (cat_choices hp)}"
  shows "py_in (neighbor_entry hp transform j) (map (neighbor_entry hp transform) js)
         \<longleftrightarrow> j \<in> set js"
proof -
  have "py_eq (neighbor_entry hp transform j') (neighbor_entry hp transform j) \<longleftrightarrow> j' = j"
    if "j' \<in> set js" for j'
    using neighbor_entry_eq[OF assms(1,2), of j'] that assms(3) by auto
  then show ?thesis
    by (auto simp: py_in_def list_ex_iff)
qed

lemma Categorical_neighbors_loop_unfold:
  assumes "length nb < c" "py_int v = Inr i"
  shows "Categorical_neighbors_loop rs hp v (Num (of_nat c)) transform nb p =
     (case Categorical_reject_loop rs i p of
        None \<Rightarrow> None
      | Some (neighbor_idx, p') \<Rightarrow>
          (case Categorical_candidate hp transform neighbor_idx of
             Inl e \<Rightarrow> Some (Inl e, p')
           | Inr candidate \<Rightarrow>
               if py_in candidate nb
               then Categorical_neighbors_loop rs hp v (Num (of_nat c)) transform nb p'
               else Categorical_neighbors_loop rs hp v (Num (of_nat c)) transform
                      (nb @ [candidate]) p'))"
  by (subst Categorical_neighbors_loop.simps) (simp add: assms)

lemma Categorical_neighbors_loop_done:
  "\<not> length nb < c \<Longrightarrow>
   Categorical_neighbors_loop rs hp v (Num (of_nat c)) transform nb p = Some (Inr nb, p)"
  by (subst Categorical_neighbors_loop.simps) simp

text \<open>A draw that is the original index or already collected changes nothing.\<close>

lemma Categorical_neighbors_loop_reject:
  assumes len: "length js < c" and v: "py_int v = Inr i"
    and D: "transform \<longrightarrow> (\<forall>j<length (cat_choices hp). \<forall>j'<length (cat_choices hp).
              py_eq (cat_choices hp ! j') (cat_choices hp ! j) \<longleftrightarrow> j' = j)"
    and js: "set js \<subseteq> {0 ..< length (cat_choices hp)}"
    and r: "0 \<le> rs p" "rs p < int (length (cat_choices hp))"
    and bad: "rs p = i \<or> nat (rs p) \<in> set js"
  shows "Categorical_neighbors_loop rs hp v (Num (of_nat c)) transform
           (map (neighbor_entry hp transform) js) p
       = Categorical_neighbors_loop rs hp v (Num (of_nat c)) transform
           (map (neighbor_entry hp transform) js) (Suc p)"
proof (cases "rs p = i")
  case True
  have len': "length (map (neighbor_entry hp transform) js) < c" using len by simp
  show ?thesis
    by (simp only: Categorical_neighbors_loop_unfold[OF len' v, of rs hp transform p]
          Categorical_neighbors_loop_unfold[OF len' v, of rs hp transform "Suc p"]
          Categorical_reject_loop_skip[of rs p i, OF True])
next
  case False
  with bad have mem: "nat (rs p) \<in> set js" by simp
  have len': "length (map (neighbor_entry hp transform) js) < c" using len by simp
  have lt: "nat (rs p) < length (cat_choices hp)" using r by simp
  have c: "Categorical_candidate hp transform (rs p)
      = Inr (neighbor_entry hp transform (nat (rs p)))"
    using Categorical_candidate_in_range[OF lt, of transform] r by simp
  show ?thesis
    by (subst Categorical_neighbors_loop_unfold[OF len' v])
       (simp add: Categorical_reject_loop_hit[of rs p i, OF False] c neighbor_entry_in[OF D lt js] mem)
qed

text \<open>A draw that is neither is appended.\<close>

lemma Categorical_neighbors_loop_accept:
  assumes len: "length js < c" and v: "py_int v = Inr i"
    and D: "transform \<longrightarrow> (\<forall>j<length (cat_choices hp). \<forall>j'<length (cat_choices hp).
              py_eq (cat_choices hp ! j') (cat_choices hp ! j) \<longleftrightarrow> j' = j)"
    and js: "set js \<subseteq> {0 ..< length (cat_choices hp)}"
    and r: "0 \<le> rs p" "rs p < int (length (cat_choices hp))"
    and good: "rs p \<noteq> i" "nat (rs p) \<notin> set js"
  shows "Categorical_neighbors_loop rs hp v (Num (of_nat c)) transform
           (map (neighbor_entry hp transform) js) p
       = Categorical_neighbors_loop rs hp v (Num (of_nat c)) transform
           (map (neighbor_entry hp transform) (js @ [nat (rs p)])) (Suc p)"
proof -
  have len': "length (map (neighbor_entry hp transform) js) < c" using len by simp
  have lt: "nat (rs p) < length (cat_choices hp)" using r by simp
  have c: "Categorical_candidate hp transform (rs p)
      = Inr (neighbor_entry hp transform (nat (rs p)))"
    using Categorical_candidate_in_range[OF lt, of transform] r by simp
  show ?thesis
    by (subst Categorical_neighbors_loop_unfold[OF len' v])
       (simp add: Categorical_reject_loop_hit[of rs p i, OF good(1)] c neighbor_entry_in[OF D lt js] good)
qed


lemma Categorical_neighbors_loop_skip_run:
  assumes len: "length js < c" and v: "py_int v = Inr i"
    and D: "transform \<longrightarrow> (\<forall>j<length (cat_choices hp). \<forall>j'<length (cat_choices hp).
              py_eq (cat_choices hp ! j') (cat_choices hp ! j) \<longleftrightarrow> j' = j)"
    and js: "set js \<subseteq> {0 ..< length (cat_choices hp)}"
    and R: "\<forall>q. 0 \<le> rs q \<and> rs q < int (length (cat_choices hp))"
  shows "(\<forall>q. p \<le> q \<and> q < p + d \<longrightarrow> rs q = i \<or> nat (rs q) \<in> set js) \<Longrightarrow>
     Categorical_neighbors_loop rs hp v (Num (of_nat c)) transform
           (map (neighbor_entry hp transform) js) p
       = Categorical_neighbors_loop rs hp v (Num (of_nat c)) transform
           (map (neighbor_entry hp transform) js) (p + d)"
proof (induction d arbitrary: p)
  case 0
  show ?case by simp
next
  case (Suc d)
  from Suc.prems have bad: "rs p = i \<or> nat (rs p) \<in> set js" by simp
  from Suc.prems have "\<forall>q. Suc p \<le> q \<and> q < Suc p + d \<longrightarrow> rs q = i \<or> nat (rs q) \<in> set js"
    by simp
  from Suc.IH[OF this] R
    Categorical_neighbors_loop_reject[where rs = rs and p = p, OF len v D js _ _ bad]
  show ?case by simp
qed

lemma free_index:
  assumes "length js < c" "c < k"
  shows "\<exists>j<k. int j \<noteq> i \<and> j \<notin> set js"
proof (rule ccontr)
  assume "\<not> (\<exists>j<k. int j \<noteq> i \<and> j \<notin> set js)"
  then have "{0 ..< k} \<subseteq> set js \<union> {nat i}" by auto
  then have "card {0 ..< k} \<le> card (set js \<union> {nat i})"
    by (intro card_mono) auto
  also have "\<dots> \<le> card (set js) + 1"
    by (metis card_Un_le card.empty card_insert_if empty_iff finite.emptyI One_nat_def)
  also have "\<dots> \<le> length js + 1" by (simp add: card_length)
  finally show False using assms by simp
qed

text \<open>
  The draws other than \<open>i\<close> at the positions from \<open>pos\<close> up to \<open>q\<close>, each kept where it
  occurs first.
\<close>

lemma first_seen_snoc:
  "rev (remdups (rev (xs @ [x])))
     = (if x \<in> set xs then rev (remdups (rev xs)) else rev (remdups (rev xs)) @ [x])"
  by simp

lemma length_first_seen: "length (rev (remdups (rev xs))) = length (remdups xs)"
  by (simp add: length_remdups_card_conv)

lemma draws_Suc:
  "pos \<le> q \<Longrightarrow>
   map nat (filter (\<lambda>d. d \<noteq> i) (map rs [pos ..< Suc q]))
     = (if rs q = i then map nat (filter (\<lambda>d. d \<noteq> i) (map rs [pos ..< q]))
        else map nat (filter (\<lambda>d. d \<noteq> i) (map rs [pos ..< q])) @ [nat (rs q)])"
  by simp

lemma first_seen_Suc:
  assumes "pos \<le> q"
  shows "rev (remdups (rev (map nat (filter (\<lambda>d. d \<noteq> i) (map rs [pos ..< Suc q])))))
     = (let js = rev (remdups (rev (map nat (filter (\<lambda>d. d \<noteq> i) (map rs [pos ..< q])))))
        in if rs q = i \<or> nat (rs q) \<in> set js then js else js @ [nat (rs q)])"
  unfolding draws_Suc[OF assms] by (simp add: Let_def)

lemma first_seen_stays:
  assumes "pos \<le> p"
    and "js = rev (remdups (rev (map nat (filter (\<lambda>d. d \<noteq> i) (map rs [pos ..< p])))))"
  shows "(\<forall>q. p \<le> q \<and> q < p + d \<longrightarrow> rs q = i \<or> nat (rs q) \<in> set js) \<Longrightarrow>
     rev (remdups (rev (map nat (filter (\<lambda>d. d \<noteq> i) (map rs [pos ..< p + d]))))) = js"
proof (induction d)
  case 0
  show ?case using assms(2) by simp
next
  case (Suc d)
  then have ih: "rev (remdups (rev (map nat (filter (\<lambda>d. d \<noteq> i) (map rs [pos ..< p + d])))))
      = js" by simp
  from Suc.prems have bad: "rs (p + d) = i \<or> nat (rs (p + d)) \<in> set js" by simp
  have le: "pos \<le> p + d" using assms(1) by simp
  have "rev (remdups (rev (map nat (filter (\<lambda>d. d \<noteq> i) (map rs [pos ..< Suc (p + d)])))))
      = js"
    unfolding first_seen_Suc[OF le] ih using bad by (simp add: Let_def)
  then show ?case by simp
qed

lemma first_seen_range:
  assumes "\<forall>q. 0 \<le> rs q \<and> rs q < int k"
  shows "set (rev (remdups (rev (map nat (filter (\<lambda>d. d \<noteq> i) (map rs [pos ..< p]))))))
           \<subseteq> {0 ..< k}"
    and "\<forall>j \<in> set (rev (remdups (rev (map nat (filter (\<lambda>d. d \<noteq> i) (map rs [pos ..< p])))))).
           int j \<noteq> i"
  using assms by (auto simp: nat_less_iff)

lemma Categorical_neighbors_loop_collects:
  assumes v: "py_int v = Inr i"
    and D: "transform \<longrightarrow> (\<forall>j<length (cat_choices hp). \<forall>j'<length (cat_choices hp).
              py_eq (cat_choices hp ! j') (cat_choices hp ! j) \<longleftrightarrow> j' = j)"
    and R: "\<forall>q. 0 \<le> rs q \<and> rs q < int (length (cat_choices hp))"
    and H: "\<forall>p. \<forall>j<length (cat_choices hp). \<exists>p'\<ge>p. rs p' = int j"
    and c: "c < length (cat_choices hp)"
  shows "m = c - length js \<Longrightarrow> length js \<le> c \<Longrightarrow> pos \<le> p \<Longrightarrow>
     js = rev (remdups (rev (map nat (filter (\<lambda>d. d \<noteq> i) (map rs [pos ..< p]))))) \<Longrightarrow>
     (\<forall>q. pos \<le> q \<and> q < p \<longrightarrow>
        length (remdups (map nat (filter (\<lambda>d. d \<noteq> i) (map rs [pos ..< q])))) < c) \<Longrightarrow>
     \<exists>p'\<ge>p. Categorical_neighbors_loop rs hp v (Num (of_nat c)) transform
                 (map (neighbor_entry hp transform) js) p
               = Some (Inr (map (neighbor_entry hp transform)
                         (rev (remdups (rev (map nat (filter (\<lambda>d. d \<noteq> i)
                            (map rs [pos ..< p']))))))), p')
        \<and> length (remdups (map nat (filter (\<lambda>d. d \<noteq> i) (map rs [pos ..< p'])))) = c
        \<and> (\<forall>q. pos \<le> q \<and> q < p' \<longrightarrow>
              length (remdups (map nat (filter (\<lambda>d. d \<noteq> i) (map rs [pos ..< q])))) < c)"
proof (induction m arbitrary: js p)
  case 0
  then have full: "length js = c" by simp
  then have "\<not> length (map (neighbor_entry hp transform) js) < c" by simp
  from Categorical_neighbors_loop_done[OF this] 0(4,5) full length_first_seen
  show ?case by (intro exI[of _ p]) (simp add: length_remdups_card_conv)
next
  case (Suc m)
  then have len: "length js < c" by simp
  note js = Suc.prems(4)
  have rng: "set js \<subseteq> {0 ..< length (cat_choices hp)}"
    unfolding js by (rule first_seen_range(1)[OF R])
  from free_index[OF len c, of i] obtain j0 where
    j0: "j0 < length (cat_choices hp)" "int j0 \<noteq> i" "j0 \<notin> set js" by blast
  from H j0(1) obtain p0 where p0: "p \<le> p0" "rs p0 = int j0" by blast
  define good where "good q \<longleftrightarrow> p \<le> q \<and> rs q \<noteq> i \<and> nat (rs q) \<notin> set js" for q
  have "good p0" using p0 j0 by (simp add: good_def)
  define q where "q = (LEAST q. good q)"
  have gq: "good q" unfolding q_def using \<open>good p0\<close> by (rule LeastI)
  have before: "\<not> good q'" if "q' < q" for q'
    using that not_less_Least unfolding q_def by blast
  have pq: "p \<le> q" using gq by (simp add: good_def)
  have run: "\<forall>q'. p \<le> q' \<and> q' < p + (q - p) \<longrightarrow> rs q' = i \<or> nat (rs q') \<in> set js"
    using before pq by (auto simp: good_def)
  from Categorical_neighbors_loop_skip_run[OF len v D rng R run] pq
  have s1: "Categorical_neighbors_loop rs hp v (Num (of_nat c)) transform
           (map (neighbor_entry hp transform) js) p
       = Categorical_neighbors_loop rs hp v (Num (of_nat c)) transform
           (map (neighbor_entry hp transform) js) q" by simp
  have rq: "0 \<le> rs q" "rs q < int (length (cat_choices hp))" using R by simp_all
  have g: "rs q \<noteq> i" "nat (rs q) \<notin> set js" using gq by (simp_all add: good_def)
  from Categorical_neighbors_loop_accept[where rs = rs and p = q, OF len v D rng rq g]
  have s2: "Categorical_neighbors_loop rs hp v (Num (of_nat c)) transform
           (map (neighbor_entry hp transform) js) q
       = Categorical_neighbors_loop rs hp v (Num (of_nat c)) transform
           (map (neighbor_entry hp transform) (js @ [nat (rs q)])) (Suc q)" .
  have stay: "rev (remdups (rev (map nat (filter (\<lambda>d. d \<noteq> i) (map rs [pos ..< p + d]))))) = js"
    if "p + d \<le> q" for d
  proof (rule first_seen_stays[OF Suc.prems(3) js])
    show "\<forall>q'. p \<le> q' \<and> q' < p + d \<longrightarrow> rs q' = i \<or> nat (rs q') \<in> set js"
      using run that by auto
  qed
  have atq: "rev (remdups (rev (map nat (filter (\<lambda>d. d \<noteq> i) (map rs [pos ..< q]))))) = js"
    using stay[of "q - p"] pq by simp
  have posq: "pos \<le> q" using Suc.prems(3) pq by simp
  have i4: "js @ [nat (rs q)]
      = rev (remdups (rev (map nat (filter (\<lambda>d. d \<noteq> i) (map rs [pos ..< Suc q])))))"
    unfolding first_seen_Suc[OF posq] atq using g by (simp add: Let_def)
  have i1: "m = c - length (js @ [nat (rs q)])" using Suc.prems(1) by simp
  have i2: "length (js @ [nat (rs q)]) \<le> c" using len by simp
  have i3: "pos \<le> Suc q" using posq by simp
  have i5: "\<forall>q'. pos \<le> q' \<and> q' < Suc q \<longrightarrow>
        length (remdups (map nat (filter (\<lambda>d. d \<noteq> i) (map rs [pos ..< q'])))) < c"
  proof (intro allI impI)
    fix q' assume h: "pos \<le> q' \<and> q' < Suc q"
    show "length (remdups (map nat (filter (\<lambda>d. d \<noteq> i) (map rs [pos ..< q'])))) < c"
    proof (cases "q' < p")
      case True
      with h Suc.prems(5) show ?thesis by simp
    next
      case False
      then have "p + (q' - p) \<le> q" "p + (q' - p) = q'" using h by simp_all
      from stay[OF this(1)] this(2) len length_first_seen[of "map nat (filter (\<lambda>d. d \<noteq> i)
          (map rs [pos ..< q']))"]
      show ?thesis by simp
    qed
  qed
  from Suc.IH[OF i1 i2 i3 i4 i5] obtain p' where
    p': "Suc q \<le> p'"
      "Categorical_neighbors_loop rs hp v (Num (of_nat c)) transform
                 (map (neighbor_entry hp transform) (js @ [nat (rs q)])) (Suc q)
               = Some (Inr (map (neighbor_entry hp transform)
                         (rev (remdups (rev (map nat (filter (\<lambda>d. d \<noteq> i)
                            (map rs [pos ..< p']))))))), p')"
      "length (remdups (map nat (filter (\<lambda>d. d \<noteq> i) (map rs [pos ..< p'])))) = c"
      "\<forall>q. pos \<le> q \<and> q < p' \<longrightarrow>
              length (remdups (map nat (filter (\<lambda>d. d \<noteq> i) (map rs [pos ..< q])))) < c"
    by blast
  from p'(1) pq have "p \<le> p'" by simp
  with p'(2,3,4) s1 s2 show ?case by (intro exI[of _ p']) simp
qed



lemma cat_abc_drawn_order:
  "Categorical_get_neighbors (\<lambda>n. int ((2 * n + 2) mod 3)) cat_abc (PInt 0) (Num 2) True 0
   = Some (Inr [PStr ''c'', PStr ''b''], 2)"
  unfolding Categorical_get_neighbors_def
  apply (simp add: cat_abc_def np_lt_def)
  apply (subst Categorical_neighbors_loop.simps)
  apply (subst Categorical_reject_loop.simps)
  apply (simp add: np_lt_def Categorical_candidate_def Categorical_transform_def py_getitem_def
      py_in_def)
  apply (subst Categorical_neighbors_loop.simps)
  apply (subst Categorical_reject_loop.simps)
  apply (simp add: np_lt_def Categorical_candidate_def Categorical_transform_def py_getitem_def
      py_in_def)
  apply (subst Categorical_neighbors_loop.simps)
  apply (simp add: np_lt_def)
  done


text \<open>
  C4 (as stated, refuted). With the three choices \<open>a, b, c\<close> and the count 2, which is the
  number of other choices, the code takes the random branch: for the draws 2, 1 the result
  is \<open>[2.0, 1.0]\<close>, not the sequence order \<open>[1.0, 2.0]\<close>. And the value is passed through
  \<open>int(value)\<close>: for the string \<open>"a"\<close> the call with count 5 raises \<open>ValueError\<close>.
\<close>

theorem categorical_neighbors_counterexample:
  "CategoricalHyperparameter_init ''c'' [PStr ''a'', PStr ''b'', PStr ''c''] PNone = Inr cat_abc
   \<and> Categorical_get_neighbors (\<lambda>n. if n = 0 then 2 else 1) cat_abc (PInt 0) (Num 2) False 0
       = Some (Inr [PFloat (Num 2), PFloat (Num 1)], 2)
   \<and> Categorical_get_neighbors (\<lambda>n. 1) cat_abc (PStr ''a'') (Num 5) True 0
       = Some (Inl ValueError, 0)"
  using cat_abc_init cat_abc_string_value cat_abc_draw_order by simp

text \<open>
  C4 (amended). The value is the index \<open>i\<close> of the current choice among the \<open>k\<close> choices.
  When the count is not below \<open>k\<close> (the default is infinite), \<open>get_neighbors\<close> returns
  the entries of all indices other than \<open>i\<close>, in sequence order, and draws nothing. When
  the count \<open>c\<close> is below \<open>k\<close>, and the random source returns indices in \<open>[0, k)\<close> and
  returns each of them again and again (and, with \<open>transform\<close>, the choices are pairwise
  unequal), the call returns after some number \<open>n\<close> of draws. Its result is the entries of
  the indices other than \<open>i\<close> among these \<open>n\<close> draws, each where it is drawn first, in the
  order drawn; they are \<open>c\<close> distinct indices, and no smaller number of draws contains
  \<open>c\<close> distinct indices other than \<open>i\<close>. The instance: three choices \<open>a, b, c\<close>, index 0,
  \<open>transform\<close> set; the count 5 gives \<open>[b, c]\<close>, and the count 2 with the draws 2, 1 gives
  \<open>[c, b]\<close>.
\<close>

theorem categorical_neighbors:
  assumes "py_int v = Inr i"
  shows "(\<not> np_lt number (Num (of_nat (length (cat_choices hp))))
          \<longrightarrow> Categorical_get_neighbors rs hp v number transform pos
              = Some (Inr (map (neighbor_entry hp transform)
                             (filter (\<lambda>j. int j \<noteq> i) [0 ..< length (cat_choices hp)])), pos))
     \<and> (c < length (cat_choices hp)
        \<and> (\<forall>q. 0 \<le> rs q \<and> rs q < int (length (cat_choices hp)))
        \<and> (\<forall>p. \<forall>j<length (cat_choices hp). \<exists>p'\<ge>p. rs p' = int j)
        \<and> (transform \<longrightarrow> (\<forall>j<length (cat_choices hp). \<forall>j'<length (cat_choices hp).
              py_eq (cat_choices hp ! j') (cat_choices hp ! j) \<longleftrightarrow> j' = j))
          \<longrightarrow> (\<exists>n js. Categorical_get_neighbors rs hp v (Num (of_nat c)) transform pos
                          = Some (Inr (map (neighbor_entry hp transform) js), pos + n)
                 \<and> js = rev (remdups (rev (map nat (filter (\<lambda>d. d \<noteq> i)
                                                      (map rs [pos ..< pos + n])))))
                 \<and> (\<forall>m<n. length (remdups (map nat (filter (\<lambda>d. d \<noteq> i)
                                                       (map rs [pos ..< pos + m])))) < c)
                 \<and> length js = c \<and> distinct js
                 \<and> set js \<subseteq> {0 ..< length (cat_choices hp)}
                 \<and> (\<forall>j\<in>set js. int j \<noteq> i)))"
proof (intro conjI impI)
  assume "\<not> np_lt number (Num (of_nat (length (cat_choices hp))))"
  from enumerate_all[OF this assms]
  show "Categorical_get_neighbors rs hp v number transform pos
      = Some (Inr (map (neighbor_entry hp transform)
                     (filter (\<lambda>j. int j \<noteq> i) [0 ..< length (cat_choices hp)])), pos)" .
next
  assume h: "c < length (cat_choices hp)
        \<and> (\<forall>q. 0 \<le> rs q \<and> rs q < int (length (cat_choices hp)))
        \<and> (\<forall>p. \<forall>j<length (cat_choices hp). \<exists>p'\<ge>p. rs p' = int j)
        \<and> (transform \<longrightarrow> (\<forall>j<length (cat_choices hp). \<forall>j'<length (cat_choices hp).
              py_eq (cat_choices hp ! j') (cat_choices hp ! j) \<longleftrightarrow> j' = j))"
  then have c: "c < length (cat_choices hp)"
    and R: "\<forall>q. 0 \<le> rs q \<and> rs q < int (length (cat_choices hp))"
    and H: "\<forall>p. \<forall>j<length (cat_choices hp). \<exists>p'\<ge>p. rs p' = int j"
    and D: "transform \<longrightarrow> (\<forall>j<length (cat_choices hp). \<forall>j'<length (cat_choices hp).
              py_eq (cat_choices hp ! j') (cat_choices hp ! j) \<longleftrightarrow> j' = j)"
    by blast+
  from Categorical_neighbors_loop_collects[OF assms D R H c, of "c - length []" "[]" pos pos]
  obtain p' where p': "pos \<le> p'"
    "Categorical_neighbors_loop rs hp v (Num (of_nat c)) transform [] pos
       = Some (Inr (map (neighbor_entry hp transform)
                 (rev (remdups (rev (map nat (filter (\<lambda>d. d \<noteq> i)
                    (map rs [pos ..< p']))))))), p')"
    "length (remdups (map nat (filter (\<lambda>d. d \<noteq> i) (map rs [pos ..< p'])))) = c"
    "\<forall>q. pos \<le> q \<and> q < p' \<longrightarrow>
        length (remdups (map nat (filter (\<lambda>d. d \<noteq> i) (map rs [pos ..< q])))) < c"
    by auto
  define n where "n = p' - pos"
  define js where
    "js = rev (remdups (rev (map nat (filter (\<lambda>d. d \<noteq> i) (map rs [pos ..< pos + n])))))"
  have pn: "pos + n = p'" using p'(1) by (simp add: n_def)
  have r: "Categorical_get_neighbors rs hp v (Num (of_nat c)) transform pos
      = Some (Inr (map (neighbor_entry hp transform) js), pos + n)"
    using p'(2) c by (simp add: Categorical_get_neighbors_def js_def pn)
  have least: "\<forall>m<n. length (remdups (map nat (filter (\<lambda>d. d \<noteq> i)
      (map rs [pos ..< pos + m])))) < c"
    using p'(4) pn by auto
  have len: "length js = c"
    using p'(3) length_first_seen[of "map nat (filter (\<lambda>d. d \<noteq> i) (map rs [pos ..< p']))"]
    by (simp add: js_def pn)
  have d: "distinct js" by (simp add: js_def)
  have rng: "set js \<subseteq> {0 ..< length (cat_choices hp)}" "\<forall>j\<in>set js. int j \<noteq> i"
    unfolding js_def by (rule first_seen_range[OF R])+
  from r least len d rng js_def
  show "\<exists>n js. Categorical_get_neighbors rs hp v (Num (of_nat c)) transform pos
                          = Some (Inr (map (neighbor_entry hp transform) js), pos + n)
                 \<and> js = rev (remdups (rev (map nat (filter (\<lambda>d. d \<noteq> i)
                                                      (map rs [pos ..< pos + n])))))
                 \<and> (\<forall>m<n. length (remdups (map nat (filter (\<lambda>d. d \<noteq> i)
                                                       (map rs [pos ..< pos + m])))) < c)
                 \<and> length js = c \<and> distinct js
                 \<and> set js \<subseteq> {0 ..< length (cat_choices hp)}
                 \<and> (\<forall>j\<in>set js. int j \<noteq> i)"
    by blast
qed

theorem categorical_neighbors_witness:
  "py_int (PInt 0) = Inr 0
   \<and> \<not> np_lt (Num 5) (Num (of_nat (length (cat_choices cat_abc))))
   \<and> 2 < length (cat_choices cat_abc)
   \<and> Categorical_get_neighbors (\<lambda>n. int ((2 * n + 2) mod 3)) cat_abc (PInt 0) (Num 5) True 0
       = Some (Inr [PStr ''b'', PStr ''c''], 0)
   \<and> Categorical_get_neighbors (\<lambda>n. int ((2 * n + 2) mod 3)) cat_abc (PInt 0) (Num 2) True 0
       = Some (Inr [PStr ''c'', PStr ''b''], 2)
   \<and> (\<exists>n js. Categorical_get_neighbors (\<lambda>n. int ((2 * n + 2) mod 3)) cat_abc (PInt 0)
                 (Num (of_nat 2)) True 0
               = Some (Inr (map (neighbor_entry cat_abc True) js), 0 + n)
          \<and> js = rev (remdups (rev (map nat (filter (\<lambda>d. d \<noteq> 0)
                     (map (\<lambda>n. int ((2 * n + 2) mod 3)) [0 ..< 0 + n])))))
          \<and> length js = 2)"
proof -
  let ?rs = "\<lambda>n::nat. int ((2 * n + 2) mod 3)"
  have len: "length (cat_choices cat_abc) = 3" by (simp add: cat_abc_def)
  have h1: "py_int (PInt 0) = Inr 0" by simp
  have h2: "\<not> np_lt (Num 5) (Num (of_nat (length (cat_choices cat_abc))))"
    by (simp add: len np_lt_def)
  have h3: "2 < length (cat_choices cat_abc)" by (simp add: len)
  have h4: "\<forall>q. 0 \<le> ?rs q \<and> ?rs q < int (length (cat_choices cat_abc))"
    by (simp add: len)
  have h5: "\<forall>p. \<forall>j<length (cat_choices cat_abc). \<exists>p'\<ge>p. ?rs p' = int j"
  proof (intro allI impI)
    fix p j :: nat
    assume "j < length (cat_choices cat_abc)"
    then have j: "j = 0 \<or> j = 1 \<or> j = 2" by (auto simp: len)
    define t :: nat where "t = (if j = 2 then 0 else if j = 1 then 1 else 2)"
    have "(2 * (3 * p + t) + 2) mod 3 = (2 * t + 2) mod 3"
      by presburger
    also have "\<dots> = j" using j by (auto simp: t_def)
    finally show "\<exists>p'\<ge>p. ?rs p' = int j"
      by (intro exI[of _ "3 * p + t"]) simp
  qed
  have h6: "\<forall>j<length (cat_choices cat_abc). \<forall>j'<length (cat_choices cat_abc).
              py_eq (cat_choices cat_abc ! j') (cat_choices cat_abc ! j) \<longleftrightarrow> j' = j"
    by (auto simp: cat_abc_def less_Suc_eq numeral_3_eq_3)
  have e: "map (neighbor_entry cat_abc True) (filter (\<lambda>j. int j \<noteq> 0) [0 ..< length (cat_choices cat_abc)])
      = [PStr ''b'', PStr ''c'']"
    by (simp add: len upt_rec neighbor_entry_def) (simp add: cat_abc_def)
  from categorical_neighbors[OF h1, of "Num 5" cat_abc ?rs True 0 2]
    h2 h3 h4 h5 h6 e cat_abc_drawn_order
  show ?thesis by auto
qed

section \<open>Equality and hash of configurations\<close>

lemma cfg_demo_init:
  "Configuration_init demo_space (Some [(''x'', PBool True)]) None False PNone None uninit
     = Inr (cfg_demo (PBool True))"
  "Configuration_init demo_space (Some [(''x'', PInt 1)]) None False PNone None uninit
     = Inr (cfg_demo (PInt 1))"
  by (simp_all add: Configuration_init_def demo_space_def cfg_demo_def)

lemma cfg_demo_dict: "Configuration_dict (cfg_demo v) = (Inr [(''x'', v)], cfg_demo v)"
  by (simp add: Configuration_dict_def Configuration_getitem_def cfg_demo_def demo_space_def)

lemma cfg_demo_eq: "fst (Configuration_eq (=) (cfg_demo (PBool True)) (cfg_demo (PInt 1))) = Inr True"
  by (simp add: Configuration_eq_def cfg_demo_dict dict_eq_def) (simp add: cfg_demo_def)

lemma cfg_demo_repr:
  "fst (Configuration_repr (py_repr fr sr) (cfg_demo (PBool True)))
     = Inr (''Configuration(values={'' @ [CHR 0x0A] @ ''  '' @ [CHR 0x27] @ ''x'' @ [CHR 0x27]
            @ '': True,'' @ [CHR 0x0A] @ ''})'')"
  "fst (Configuration_repr (py_repr fr sr) (cfg_demo (PInt 1)))
     = Inr (''Configuration(values={'' @ [CHR 0x0A] @ ''  '' @ [CHR 0x27] @ ''x'' @ [CHR 0x27]
            @ '': 1,'' @ [CHR 0x0A] @ ''})'')"
  by (simp_all add: Configuration_repr_def cfg_demo_dict repr_line_def repr_int_def repr_nat.simps)

lemma Configuration_hash_of_repr:
  "fst (Configuration_hash py_hash value_repr c)
     = map_sum id py_hash (fst (Configuration_repr value_repr c))"
  by (simp add: Configuration_hash_def split: prod.splits sum.splits)

text \<open>
  C8 (the code at a failing input). Over the same space, the configurations built from
  \<open>{"x": True}\<close> and from \<open>{"x": 1}\<close> are equal: \<open>__eq__\<close> compares the value mappings as
  dictionaries and \<open>True == 1\<close>. They print as \<open>'x': True,\<close> and \<open>'x': 1,\<close>, and \<open>__hash__\<close>
  is the string hash of the printed form. So the hashes of the two equal configurations are
  the hashes of two different strings; they differ for every string hash that tells these
  two strings apart, for instance the one that maps a string to its length.
\<close>

theorem configuration_equal_hash_differs:
  "Configuration_init demo_space (Some [(''x'', PBool True)]) None False PNone None (\<lambda>n. NaN)
     = Inr (cfg_demo (PBool True))
   \<and> Configuration_init demo_space (Some [(''x'', PInt 1)]) None False PNone None (\<lambda>n. NaN)
     = Inr (cfg_demo (PInt 1))
   \<and> fst (Configuration_eq (=) (cfg_demo (PBool True)) (cfg_demo (PInt 1))) = Inr True
   \<and> fst (Configuration_hash py_hash (py_repr fr sr) (cfg_demo (PBool True)))
     = Inr (py_hash (''Configuration(values={'' @ [CHR 0x0A] @ ''  '' @ [CHR 0x27] @ ''x''
                     @ [CHR 0x27] @ '': True,'' @ [CHR 0x0A] @ ''})''))
   \<and> fst (Configuration_hash py_hash (py_repr fr sr) (cfg_demo (PInt 1)))
     = Inr (py_hash (''Configuration(values={'' @ [CHR 0x0A] @ ''  '' @ [CHR 0x27] @ ''x''
                     @ [CHR 0x27] @ '': 1,'' @ [CHR 0x0A] @ ''})''))
   \<and> fst (Configuration_repr (py_repr fr sr) (cfg_demo (PBool True)))
     \<noteq> fst (Configuration_repr (py_repr fr sr) (cfg_demo (PInt 1)))
   \<and> fst (Configuration_hash (\<lambda>s. int (length s)) (py_repr fr sr) (cfg_demo (PBool True)))
     \<noteq> fst (Configuration_hash (\<lambda>s. int (length s)) (py_repr fr sr) (cfg_demo (PInt 1)))"
  by (simp add: cfg_demo_init cfg_demo_eq Configuration_hash_of_repr cfg_demo_repr)

section \<open>Encoding and decoding a legal value\<close>












lemma np_operand_num: "numpy_scalar v \<Longrightarrow> num_of v = Some x \<Longrightarrow> np_operand v = Inr x"
  by (simp add: np_operand_def)
















lemma round_half_even_mult [simp]: "round_half_even (of_int a * of_int b) = a * b"
  using round_half_even_of_int[of "a * b"] by simp

lemma trunc_mult [simp]: "trunc (of_int a * of_int b) = a * b"
  using trunc_of_int[of "a * b"] by simp




lemma check_int_at_least_1:
  assumes "num_of q = Some x" "\<not> np_lt x (Num 1)" "check_int q = Inr k"
  shows "1 \<le> k"
proof (cases q)
  case (PBool b)
  with assms show ?thesis by (cases b) (auto simp: check_int_def np_lt_def split: if_splits)
next
  case (PInt i)
  with assms show ?thesis by (auto simp: check_int_PInt np_lt_def)
next
  case (PFloat y)
  with assms have y: "x = y" by simp
  show ?thesis
  proof (cases y)
    case (Num a)
    with assms(2) y have "1 \<le> a" by (auto simp: np_lt_def)
    then have "1 \<le> trunc a" by (simp add: trunc_def le_floor_iff)
    with assms(3) PFloat Num show ?thesis
      by (auto simp: check_int_def split: if_splits sum.splits)
  qed (use assms(3) PFloat in \<open>auto simp: check_int_def\<close>)
qed (use assms in auto)

lemma NormalInteger_init_step:
  assumes "NormalIntegerHyperparameter_init name mu sigma dflt q lg = Inr hp"
  shows "positive_step (map_option of_int (ni_q hp))"
proof -
  from assms obtain qv where
    q: "(if q \<noteq> PNone
         then (case num_of q of
                 None \<Rightarrow> Inl TypeError
               | Some x \<Rightarrow>
                   if np_lt x (Num 1) then Inr None
                   else (case check_int q of Inl e \<Rightarrow> Inl e | Inr k \<Rightarrow> Inr (Some k)))
         else Inr None) = Inr qv"
    and hp: "ni_q hp = qv"
    unfolding NormalIntegerHyperparameter_init_def NormalFloatHyperparameter_init_def
    by (auto split: sum.splits)
  show ?thesis
  proof (cases qv)
    case None
    with hp show ?thesis by (simp add: positive_step_def)
  next
    case (Some k)
    with q obtain x where "num_of q = Some x" "\<not> np_lt x (Num 1)" "check_int q = Inr k"
      by (auto split: if_splits option.splits sum.splits)
    from check_int_at_least_1[OF this] Some hp show ?thesis
      by (simp add: positive_step_def)
  qed
qed

lemma usable_bounds_unquantized:
  assumes "UniformFloatHyperparameter_init name lower upper dflt None lg = Inr hp"
  shows "usable_bounds hp"
proof -
  note f = UniformFloat_init_fields[OF assms]
  show ?thesis
  proof (cases lg)
    case True
    with f(5,6) have "0 < lower" "0 < upper" "ln lower \<noteq> ln upper" by auto
    with f(7,8) True show ?thesis by (simp add: usable_bounds_def)
  next
    case False
    with f(5,7,8) show ?thesis by (simp add: usable_bounds_def)
  qed
qed

text \<open>
  The side condition \<open>well_scaled\<close> holds by construction for every variant except a
  quantized float.
\<close>

lemma well_scaled_by_construction:
  assumes "construct args = Inr hp"
    and "case hp of HP_UniformFloat r \<Rightarrow> uf_q r = None | HP_NormalFloat r \<Rightarrow> nf_q r = None
         | _ \<Rightarrow> True"
  shows "well_scaled hp"
proof (cases args)
  case (UniformFloat_args nm lower upper dflt q lg)
  with assms(1) obtain r where r: "hp = HP_UniformFloat r"
    "UniformFloatHyperparameter_init nm lower upper dflt q lg = Inr r"
    by (auto simp: map_sum_Inr_iff)
  with assms(2) UniformFloat_init_fields(3)[OF r(2)] have "q = None" by simp
  with r usable_bounds_unquantized[of nm lower upper dflt lg r] assms(2) show ?thesis
    by (simp add: positive_step_def)
next
  case (NormalFloat_args nm mu sigma dflt q lg)
  with assms show ?thesis by (auto simp: map_sum_Inr_iff positive_step_def)
next
  case (UniformInteger_args nm lower upper dflt q lg)
  with assms(1) obtain r where r: "hp = HP_UniformInteger r"
    "UniformIntegerHyperparameter_init nm lower upper dflt q lg = Inr r"
    by (auto simp: map_sum_Inr_iff)
  from UniformInteger_init_fields(7)[OF r(2)] obtain d where
    "UniformFloatHyperparameter_init nm (of_int lower - 49999 / 100000)
           (of_int upper + 49999 / 100000) (Some d) None lg = Inr (ui_ufhp r)" ..
  from usable_bounds_unquantized[OF this] r show ?thesis by simp
next
  case (NormalInteger_args nm mu sigma dflt q lg)
  with assms(1) obtain r where r: "hp = HP_NormalInteger r"
    "NormalIntegerHyperparameter_init nm mu sigma dflt q lg = Inr r"
    by (auto simp: map_sum_Inr_iff)
  from NormalInteger_init_step[OF r(2)] r show ?thesis by simp
qed (use assms in \<open>auto simp: map_sum_Inr_iff\<close>)








end
